theory Spec2Isabelle
  imports Complex_Main
begin

section \<open>Tables\<close>

text \<open>
  A pandas \<open>DataFrame\<close> is a row count (the length of its index) and its columns in
  order, each a label and the cells of that column. A column is numeric (dtype in
  \<open>select_dtypes(include=['number'])\<close>), text (dtype \<open>object\<close> holding strings) or
  date-time. A missing cell (\<open>NaN\<close>, \<open>None\<close>, \<open>NaT\<close>) is \<open>None\<close>. Numeric cells are
  real numbers: the values that the floating-point cells of the program approximate.
  Labels are unique within a frame, as the readers of pandas make them; a lookup by label
  finds the first column of that label.
\<close>

datatype coldata =
    Num "real option list"
  | Txt "string option list"
  | Dat "int option list"

record dataframe =
  nrows :: nat
  columns :: "(string \<times> coldata) list"

text \<open>A Python \<open>dict\<close> from category key to frame, in insertion order.\<close>

type_synonym dataset = "(string \<times> dataframe) list"

datatype error =
    ValueError string
  | BroadcastError
  | TypeError
  | ExcelValidationError string

fun is_numeric :: "coldata \<Rightarrow> bool" where
  "is_numeric (Num xs) = True"
| "is_numeric (Txt xs) = False"
| "is_numeric (Dat xs) = False"

text \<open>\<open>df.empty\<close>: some axis has length zero.\<close>

definition df_empty :: "dataframe \<Rightarrow> bool" where
  "df_empty df \<longleftrightarrow> nrows df = 0 \<or> columns df = []"

text \<open>\<open>df.select_dtypes(include=['number']).columns\<close>, in the order of the frame.\<close>

definition numeric_cols :: "dataframe \<Rightarrow> string list" where
  "numeric_cols df = map fst (filter (\<lambda>c. is_numeric (snd c)) (columns df))"

text \<open>\<open>Series.sum()\<close> of a numeric column: missing cells are skipped.\<close>

definition nansum :: "real option list \<Rightarrow> real" where
  "nansum xs = sum_list (map (\<lambda>c. case c of None \<Rightarrow> 0 | Some v \<Rightarrow> v) xs)"

text \<open>
  \<open>df[col].sum()\<close> as it is added to a float array: a numeric column gives its sum, a text
  column without any string gives 0, a text column with a string gives a string and a
  date-time column cannot be summed, both of which raise a \<open>TypeError\<close>.
\<close>

fun series_sum :: "coldata \<Rightarrow> error + real" where
  "series_sum (Num xs) = Inr (nansum xs)"
| "series_sum (Txt xs) = (if list_all (\<lambda>c. c = None) xs then Inr 0 else Inl TypeError)"
| "series_sum (Dat xs) = Inl TypeError"

text \<open>\<open>df[numeric_cols].sum().sum()\<close>.\<close>

definition grand_sum :: "dataframe \<Rightarrow> real" where
  "grand_sum df =
     sum_list (map (\<lambda>c. case snd c of Num xs \<Rightarrow> nansum xs | _ \<Rightarrow> 0)
                   (filter (\<lambda>c. is_numeric (snd c)) (columns df)))"

text \<open>\<open>d[key] = v\<close> on a dict: an existing key keeps its position, a new one goes last.\<close>

fun dict_set :: "('k \<times> 'v) list \<Rightarrow> 'k \<Rightarrow> 'v \<Rightarrow> ('k \<times> 'v) list" where
  "dict_set [] k v = [(k, v)]"
| "dict_set (p # ps) k v = (if fst p = k then (k, v) # ps else p # dict_set ps k v)"

text \<open>
  \<open>df[col] = data\<close>: an existing label is overwritten in place, a new label is appended as
  the last column.
\<close>

definition set_col :: "dataframe \<Rightarrow> string \<Rightarrow> coldata \<Rightarrow> dataframe" where
  "set_col df col d =
     (if col \<in> set (map fst (columns df))
      then df\<lparr>columns := map (\<lambda>c. if fst c = col then (col, d) else c) (columns df)\<rparr>
      else df\<lparr>columns := columns df @ [(col, d)]\<rparr>)"

text \<open>\<open>df[numeric_cols] = df[numeric_cols] * k\<close>.\<close>

fun scale_coldata :: "real \<Rightarrow> coldata \<Rightarrow> coldata" where
  "scale_coldata k (Num xs) = Num (map (map_option (\<lambda>v. v * k)) xs)"
| "scale_coldata k (Txt xs) = Txt xs"
| "scale_coldata k (Dat xs) = Dat xs"

definition scale_numeric :: "real \<Rightarrow> dataframe \<Rightarrow> dataframe" where
  "scale_numeric k df = df\<lparr>columns := map (\<lambda>c. (fst c, scale_coldata k (snd c))) (columns df)\<rparr>"

section \<open>Financial categories\<close>

datatype FinancialCategory =
    REVENUE | VARIABLE_COSTS | PERSONNEL_EXPENSES | COMMERCIAL_EXPENSES | ADMIN_EXPENSES
  | INVESTMENTS | CONTRIBUTION_MARGIN | CASH_FLOW | FINAL_BALANCE

fun category_value :: "FinancialCategory \<Rightarrow> string" where
  "category_value REVENUE = ''receitas''"
| "category_value VARIABLE_COSTS = ''custos_variaveis''"
| "category_value PERSONNEL_EXPENSES = ''despesas_pessoal''"
| "category_value COMMERCIAL_EXPENSES = ''despesas_comerciais''"
| "category_value ADMIN_EXPENSES = ''despesas_administrativas''"
| "category_value INVESTMENTS = ''investimentos''"
| "category_value CONTRIBUTION_MARGIN = ''margem_contribuicao''"
| "category_value CASH_FLOW = ''fluxo_de_caixa''"
| "category_value FINAL_BALANCE = ''saldo_final''"

definition REVENUE_CATEGORIES :: "FinancialCategory list" where
  "REVENUE_CATEGORIES = [REVENUE]"

definition VARIABLE_COST_CATEGORIES :: "FinancialCategory list" where
  "VARIABLE_COST_CATEGORIES = [VARIABLE_COSTS]"

definition FIXED_EXPENSE_CATEGORIES :: "FinancialCategory list" where
  "FIXED_EXPENSE_CATEGORIES = [PERSONNEL_EXPENSES, COMMERCIAL_EXPENSES, ADMIN_EXPENSES]"

definition INVESTMENT_CATEGORIES :: "FinancialCategory list" where
  "INVESTMENT_CATEGORIES = [INVESTMENTS]"

definition CALCULATED_CATEGORIES :: "FinancialCategory list" where
  "CALCULATED_CATEGORIES = [CONTRIBUTION_MARGIN, CASH_FLOW, FINAL_BALANCE]"

section \<open>Iteration order of Python sets\<close>

text \<open>
  The generator collects column labels in Python sets and turns the sets into lists. The
  order in which a set is iterated is fixed by the hash values of its elements (for
  strings they change with the hash seed of the process) and by the insertions that built
  it; it is not the order of insertion. The model takes it as a parameter:
  \<open>listing it xs\<close> is \<open>list(s)\<close> for a set \<open>s\<close> into which the labels \<open>xs\<close> were inserted
  in this order, and \<open>intersection_listing it xss\<close> is
  \<open>list(set.intersection(*[set(xs) for xs in xss]))\<close>.
\<close>

record set_iteration =
  listing :: "string list \<Rightarrow> string list"
  intersection_listing :: "string list list \<Rightarrow> string list"

text \<open>What every iteration order satisfies: the list holds the elements of the set, once each.\<close>

definition valid_iteration :: "set_iteration \<Rightarrow> bool" where
  "valid_iteration it \<longleftrightarrow>
     (\<forall>xs. distinct (listing it xs) \<and> set (listing it xs) = set xs) \<and>
     (\<forall>xss. xss \<noteq> [] \<longrightarrow>
        distinct (intersection_listing it xss) \<and>
        set (intersection_listing it xss) = (\<Inter>xs\<in>set xss. set xs))"

text \<open>Two iteration orders: the order of first insertion, and its reverse.\<close>

fun first_occurrences :: "string list \<Rightarrow> string list" where
  "first_occurrences [] = []"
| "first_occurrences (x # xs) = x # filter (\<lambda>y. y \<noteq> x) (first_occurrences xs)"

definition in_all :: "string list list \<Rightarrow> string list" where
  "in_all xss =
     (case xss of [] \<Rightarrow> []
      | xs # rest \<Rightarrow> filter (\<lambda>x. list_all (\<lambda>ys. x \<in> set ys) rest) (first_occurrences xs))"

definition insertion_order :: set_iteration where
  "insertion_order = \<lparr>listing = first_occurrences, intersection_listing = in_all\<rparr>"

definition reversed_order :: set_iteration where
  "reversed_order =
     \<lparr>listing = (\<lambda>xs. rev (first_occurrences xs)),
      intersection_listing = (\<lambda>xss. rev (in_all xss))\<rparr>"

section \<open>numpy arrays\<close>

text \<open>
  An elementwise operation on two one-dimensional arrays: equal lengths pair up, an array
  of length one is broadcast against the other, any other pair of lengths raises.
\<close>

definition np_binop :: "(real \<Rightarrow> real \<Rightarrow> real) \<Rightarrow> real list \<Rightarrow> real list \<Rightarrow> error + real list" where
  "np_binop f a b =
     (if length a = length b then Inr (map2 f a b)
      else if length b = 1 then Inr (map (\<lambda>x. f x (hd b)) a)
      else if length a = 1 then Inr (map (\<lambda>y. f (hd a) y) b)
      else Inl BroadcastError)"

fun cumsum_from :: "real \<Rightarrow> real list \<Rightarrow> real list" where
  "cumsum_from acc [] = []"
| "cumsum_from acc (x # xs) = (acc + x) # cumsum_from (acc + x) xs"

definition np_cumsum :: "real list \<Rightarrow> real list" where
  "np_cumsum xs = cumsum_from 0 xs"

section \<open>The scenario generator\<close>

text \<open>
  The first loop of \<open>_sum_category_values\<close>: the numeric labels of the categories of the
  group that are present, in the order in which they are inserted into the set.
\<close>

definition group_numeric_columns :: "dataset \<Rightarrow> FinancialCategory list \<Rightarrow> string list" where
  "group_numeric_columns data categories =
     concat (map (\<lambda>c. case map_of data (category_value c) of
                         None \<Rightarrow> [] | Some df \<Rightarrow> numeric_cols df) categories)"

text \<open>
  The inner loop of the second loop: \<open>result[i] += df[col].sum()\<close> for every listed label
  that the frame has.
\<close>

fun add_column_sums :: "dataframe \<Rightarrow> string list \<Rightarrow> real list \<Rightarrow> error + real list" where
  "add_column_sums df (col # cols) (r # rs) =
     (case map_of (columns df) col of
        None \<Rightarrow>
          (case add_column_sums df cols rs of Inl e \<Rightarrow> Inl e | Inr rs' \<Rightarrow> Inr (r # rs'))
      | Some d \<Rightarrow>
          (case series_sum d of
             Inl e \<Rightarrow> Inl e
           | Inr s \<Rightarrow>
               (case add_column_sums df cols rs of
                  Inl e \<Rightarrow> Inl e | Inr rs' \<Rightarrow> Inr ((r + s) # rs'))))"
| "add_column_sums df cols result = Inr result"

fun add_categories ::
  "dataset \<Rightarrow> FinancialCategory list \<Rightarrow> string list \<Rightarrow> real list \<Rightarrow> error + real list" where
  "add_categories data [] cols result = Inr result"
| "add_categories data (c # cs) cols result =
     (case map_of data (category_value c) of
        None \<Rightarrow> add_categories data cs cols result
      | Some df \<Rightarrow>
          (case add_column_sums df cols result of
             Inl e \<Rightarrow> Inl e | Inr result' \<Rightarrow> add_categories data cs cols result'))"

text \<open>
  \<open>_sum_category_values\<close>: one sum per numeric label of the group, in the iteration order
  of the set of these labels.
\<close>

definition sum_category_values ::
  "set_iteration \<Rightarrow> dataset \<Rightarrow> FinancialCategory list \<Rightarrow> error + real list" where
  "sum_category_values it data categories =
     (let numeric_columns = listing it (group_numeric_columns data categories);
          result = replicate (length numeric_columns) 0
      in add_categories data categories numeric_columns result)"

text \<open>
  \<open>_find_common_numeric_columns\<close>: the numeric labels shared by all frames of the scenario
  that are not empty, in the iteration order of the intersection.
\<close>

definition find_common_numeric_columns :: "set_iteration \<Rightarrow> dataset \<Rightarrow> string list" where
  "find_common_numeric_columns it sd =
     (let all_numeric_columns =
            map (\<lambda>p. numeric_cols (snd p)) (filter (\<lambda>p. \<not> df_empty (snd p)) sd)
      in if all_numeric_columns = [] then [] else intersection_listing it all_numeric_columns)"

text \<open>
  \<open>_create_or_get_dataframe\<close>: the frame stored under the key or, without one, a frame on
  the index of the first non-empty frame of the scenario, with its non-numeric columns.
\<close>

definition create_or_get_dataframe :: "dataset \<Rightarrow> string \<Rightarrow> dataframe" where
  "create_or_get_dataframe sd category =
     (case map_of sd category of
        Some df \<Rightarrow> df
      | None \<Rightarrow>
          (case find (\<lambda>df. \<not> df_empty df) (map snd sd) of
             None \<Rightarrow> \<lparr>nrows = 0, columns = []\<rparr>
           | Some template_df \<Rightarrow>
               \<lparr>nrows = nrows template_df,
                columns = filter (\<lambda>c. \<not> is_numeric (snd c)) (columns template_df)\<rparr>))"

text \<open>
  The loop of \<open>_update_dataframe_with_values\<close>: label \<open>i\<close> receives value \<open>i\<close>, divided by
  the number of rows when the frame has more than one row.
\<close>

fun assign_values :: "dataframe \<Rightarrow> string list \<Rightarrow> real list \<Rightarrow> dataframe" where
  "assign_values df (col # cols) (v # vs) =
     assign_values
       (set_col df col
          (Num (replicate (nrows df) (Some (if nrows df > 1 then v / real (nrows df) else v)))))
       cols vs"
| "assign_values df cols vs = df"

definition update_dataframe_with_values ::
  "dataframe \<Rightarrow> string list \<Rightarrow> real list \<Rightarrow> dataframe" where
  "update_dataframe_with_values df cols vals =
     (if cols = [] \<or> vals = [] then df
      else
        let vals' =
              (if length vals > length cols then take (length cols) vals
               else if length vals < length cols
               then vals @ replicate (length cols - length vals) 0
               else vals)
        in assign_values df cols vals')"

definition recalculate_derived_values :: "set_iteration \<Rightarrow> dataset \<Rightarrow> error + dataset" where
  "recalculate_derived_values it scenario_data =
     (let common_columns = find_common_numeric_columns it scenario_data;
          margin_df = create_or_get_dataframe scenario_data (category_value CONTRIBUTION_MARGIN);
          cashflow_df = create_or_get_dataframe scenario_data (category_value CASH_FLOW);
          balance_df = create_or_get_dataframe scenario_data (category_value FINAL_BALANCE)
      in
      (case sum_category_values it scenario_data REVENUE_CATEGORIES of
         Inl e \<Rightarrow> Inl e
       | Inr revenue_sum \<Rightarrow>
      (case sum_category_values it scenario_data VARIABLE_COST_CATEGORIES of
         Inl e \<Rightarrow> Inl e
       | Inr variable_costs_sum \<Rightarrow>
      (case sum_category_values it scenario_data FIXED_EXPENSE_CATEGORIES of
         Inl e \<Rightarrow> Inl e
       | Inr fixed_expenses_sum \<Rightarrow>
      (case np_binop (-) revenue_sum variable_costs_sum of
         Inl e \<Rightarrow> Inl e
       | Inr contribution_margin \<Rightarrow>
      (case np_binop (-) contribution_margin fixed_expenses_sum of
         Inl e \<Rightarrow> Inl e
       | Inr cashflow \<Rightarrow>
           (let balance = np_cumsum cashflow;
                margin_df' =
                  update_dataframe_with_values margin_df common_columns contribution_margin;
                cashflow_df' = update_dataframe_with_values cashflow_df common_columns cashflow;
                balance_df' = update_dataframe_with_values balance_df common_columns balance
            in Inr (dict_set
                      (dict_set
                         (dict_set scenario_data (category_value CONTRIBUTION_MARGIN) margin_df')
                         (category_value CASH_FLOW) cashflow_df')
                      (category_value FINAL_BALANCE) balance_df'))))))))"

text \<open>
  \<open>parameters.get(key, default) if parameters else default\<close>: an absent and an empty
  parameter object both give the default.
\<close>

definition get_param :: "(string \<times> real) list option \<Rightarrow> string \<Rightarrow> real \<Rightarrow> real" where
  "get_param parameters key dflt =
     (case parameters of
        None \<Rightarrow> dflt
      | Some ps \<Rightarrow>
          if ps = [] then dflt
          else (case map_of ps key of None \<Rightarrow> dflt | Some v \<Rightarrow> v))"

text \<open>The body of the adjustment loops: the numeric columns of a present category times \<open>k\<close>.\<close>

definition scale_category :: "real \<Rightarrow> FinancialCategory \<Rightarrow> dataset \<Rightarrow> dataset" where
  "scale_category k category sd =
     (case map_of sd (category_value category) of
        None \<Rightarrow> sd
      | Some df \<Rightarrow> dict_set sd (category_value category) (scale_numeric k df))"

definition generate_realistic_scenario ::
  "set_iteration \<Rightarrow> dataset \<Rightarrow> (string \<times> real) list option \<Rightarrow> error + dataset" where
  "generate_realistic_scenario it financial_data parameters =
     recalculate_derived_values it financial_data"

definition generate_pessimistic_scenario ::
  "set_iteration \<Rightarrow> dataset \<Rightarrow> (string \<times> real) list option \<Rightarrow> error + dataset" where
  "generate_pessimistic_scenario it financial_data parameters =
     (let revenue_adjustment = get_param parameters ''revenue_adjustment'' (- 0.15);
          cost_adjustment = get_param parameters ''cost_adjustment'' 0.10;
          expense_adjustment = get_param parameters ''expense_adjustment'' 0.10;
          sd1 = fold (scale_category (1 + revenue_adjustment)) REVENUE_CATEGORIES financial_data;
          sd2 = fold (scale_category (1 + cost_adjustment)) VARIABLE_COST_CATEGORIES sd1;
          sd3 = fold (scale_category (1 + expense_adjustment)) FIXED_EXPENSE_CATEGORIES sd2
      in recalculate_derived_values it sd3)"

definition generate_optimistic_scenario ::
  "set_iteration \<Rightarrow> dataset \<Rightarrow> (string \<times> real) list option \<Rightarrow> error + dataset" where
  "generate_optimistic_scenario it financial_data parameters =
     (let revenue_adjustment = get_param parameters ''revenue_adjustment'' 0.20;
          cost_adjustment = get_param parameters ''cost_adjustment'' (- 0.05);
          expense_adjustment = get_param parameters ''expense_adjustment'' (- 0.05);
          sd1 = fold (scale_category (1 + revenue_adjustment)) REVENUE_CATEGORIES financial_data;
          sd2 = fold (scale_category (1 + cost_adjustment)) VARIABLE_COST_CATEGORIES sd1;
          sd3 = fold (scale_category (1 + expense_adjustment)) FIXED_EXPENSE_CATEGORIES sd2
      in recalculate_derived_values it sd3)"

text \<open>\<open>df[col] = df[col] * k\<close> for one label.\<close>

definition scale_col :: "real \<Rightarrow> string \<Rightarrow> dataframe \<Rightarrow> dataframe" where
  "scale_col k col df =
     df\<lparr>columns := map (\<lambda>c. if fst c = col then (col, scale_coldata k (snd c)) else c)
                        (columns df)\<rparr>"

text \<open>
  The revenue loop of the aggressive scenario: numeric column \<open>i\<close> of the frame, counted
  from 0 in the order of the frame, grows by \<open>1 + initial_growth + i * growth_rate\<close>.
\<close>

fun grow_columns :: "real \<Rightarrow> real \<Rightarrow> nat \<Rightarrow> string list \<Rightarrow> dataframe \<Rightarrow> dataframe" where
  "grow_columns initial_growth growth_rate i [] df = df"
| "grow_columns initial_growth growth_rate i (col # cols) df =
     grow_columns initial_growth growth_rate (Suc i) cols
       (scale_col (1 + initial_growth + real i * growth_rate) col df)"

definition grow_category :: "real \<Rightarrow> real \<Rightarrow> FinancialCategory \<Rightarrow> dataset \<Rightarrow> dataset" where
  "grow_category initial_growth growth_rate category sd =
     (case map_of sd (category_value category) of
        None \<Rightarrow> sd
      | Some df \<Rightarrow>
          dict_set sd (category_value category)
            (grow_columns initial_growth growth_rate 0 (numeric_cols df) df))"

text \<open>
  \<open>new_revenue / original_revenue\<close> with the entries that are not finite set to 1.0: a
  division by zero gives an infinity or a \<open>NaN\<close>.
\<close>

definition growth_ratio :: "real \<Rightarrow> real \<Rightarrow> real" where
  "growth_ratio new_sum original_sum = (if original_sum = 0 then 1 else new_sum / original_sum)"

text \<open>
  The cost and expense loops of the aggressive scenario: numeric column \<open>i\<close> of the frame
  becomes the original column of that label times \<open>1 + (revenue_growth[i] - 1) * share\<close>,
  as long as \<open>i < len(revenue_growth)\<close>. The frame is a copy of the original one, so the
  original always has the label.
\<close>

fun follow_columns ::
  "real \<Rightarrow> real list \<Rightarrow> dataframe \<Rightarrow> nat \<Rightarrow> string list \<Rightarrow> dataframe \<Rightarrow> dataframe" where
  "follow_columns share revenue_growth df_orig i [] df = df"
| "follow_columns share revenue_growth df_orig i (col # cols) df =
     follow_columns share revenue_growth df_orig (Suc i) cols
       (if i < length revenue_growth then
          (case map_of (columns df_orig) col of
             None \<Rightarrow> df
           | Some d \<Rightarrow>
               set_col df col (scale_coldata (1 + (revenue_growth ! i - 1) * share) d))
        else df)"

definition follow_growth ::
  "real \<Rightarrow> real list \<Rightarrow> dataset \<Rightarrow> FinancialCategory \<Rightarrow> dataset \<Rightarrow> dataset" where
  "follow_growth share revenue_growth financial_data category sd =
     (case map_of sd (category_value category) of
        None \<Rightarrow> sd
      | Some df \<Rightarrow>
          (case map_of financial_data (category_value category) of
             None \<Rightarrow> sd
           | Some df_orig \<Rightarrow>
               dict_set sd (category_value category)
                 (follow_columns share revenue_growth df_orig 0 (numeric_cols df) df)))"

definition generate_aggressive_scenario ::
  "set_iteration \<Rightarrow> dataset \<Rightarrow> (string \<times> real) list option \<Rightarrow> error + dataset" where
  "generate_aggressive_scenario it financial_data parameters =
     (let initial_growth = get_param parameters ''initial_growth'' 0.30;
          growth_rate = get_param parameters ''growth_rate'' 0.05;
          investment_adjustment = get_param parameters ''investment_adjustment'' 0.25;
          sd1 = fold (grow_category initial_growth growth_rate) REVENUE_CATEGORIES financial_data;
          sd2 = fold (scale_category (1 + investment_adjustment)) INVESTMENT_CATEGORIES sd1
      in
      (case sum_category_values it financial_data REVENUE_CATEGORIES of
         Inl e \<Rightarrow> Inl e
       | Inr original_revenue \<Rightarrow>
      (case sum_category_values it sd2 REVENUE_CATEGORIES of
         Inl e \<Rightarrow> Inl e
       | Inr new_revenue \<Rightarrow>
           if original_revenue \<noteq> [] \<and> new_revenue \<noteq> [] then
             (case np_binop growth_ratio new_revenue original_revenue of
                Inl e \<Rightarrow> Inl e
              | Inr revenue_growth \<Rightarrow>
                  (let sd3 = fold (follow_growth 0.8 revenue_growth financial_data)
                               VARIABLE_COST_CATEGORIES sd2;
                       sd4 = fold (follow_growth 0.5 revenue_growth financial_data)
                               FIXED_EXPENSE_CATEGORIES sd3
                   in recalculate_derived_values it sd4))
           else recalculate_derived_values it sd2)))"

section \<open>Metrics and the public operation\<close>

record metrics =
  total_revenue :: real
  total_costs :: real
  total_expenses :: real
  total_margin :: real
  total_cashflow :: real
  final_balance :: real
  margin_percentage :: real
  roi :: real

text \<open>The grand sum of the numeric cells of the categories of a group that are present.\<close>

definition group_total :: "dataset \<Rightarrow> FinancialCategory list \<Rightarrow> real" where
  "group_total scenario_data categories =
     fold (\<lambda>category total.
             case map_of scenario_data (category_value category) of
               None \<Rightarrow> total
             | Some df \<Rightarrow> total + grand_sum df)
          categories 0"

text \<open>\<open>metrics[key] = df[numeric_cols].sum().sum()\<close> for a present category, 0 otherwise.\<close>

definition category_total :: "dataset \<Rightarrow> FinancialCategory \<Rightarrow> real" where
  "category_total scenario_data category =
     (case map_of scenario_data (category_value category) of
        None \<Rightarrow> 0
      | Some df \<Rightarrow> grand_sum df)"

text \<open>The last cell of every numeric column that is not missing, added up.\<close>

definition last_values_total :: "dataframe \<Rightarrow> real" where
  "last_values_total df =
     fold (\<lambda>c total.
             case snd c of
               Num xs \<Rightarrow>
                 (case filter (\<lambda>x. x \<noteq> None) xs of
                    [] \<Rightarrow> total
                  | y # ys \<Rightarrow> total + the (last (y # ys)))
             | _ \<Rightarrow> total)
          (columns df) 0"

definition calculate_scenario_metrics :: "dataset \<Rightarrow> metrics" where
  "calculate_scenario_metrics scenario_data =
     (let total_revenue' = group_total scenario_data REVENUE_CATEGORIES;
          total_costs' = group_total scenario_data VARIABLE_COST_CATEGORIES;
          total_expenses' = group_total scenario_data FIXED_EXPENSE_CATEGORIES;
          total_margin' = category_total scenario_data CONTRIBUTION_MARGIN;
          total_cashflow' = category_total scenario_data CASH_FLOW;
          final_balance' =
            (case map_of scenario_data (category_value FINAL_BALANCE) of
               None \<Rightarrow> 0
             | Some df \<Rightarrow> last_values_total df);
          margin_percentage' =
            (if total_revenue' > 0 then (total_margin' / total_revenue') * 100 else 0);
          total_investment = group_total scenario_data INVESTMENT_CATEGORIES;
          roi' = (if total_investment > 0 then (total_cashflow' / total_investment) * 100 else 0)
      in \<lparr>total_revenue = total_revenue', total_costs = total_costs',
          total_expenses = total_expenses', total_margin = total_margin',
          total_cashflow = total_cashflow', final_balance = final_balance',
          margin_percentage = margin_percentage', roi = roi'\<rparr>)"

text \<open>
  The generator object: the data of the last call, the scenarios stored by type and the
  types noted in the metadata.
\<close>

record generator =
  financial_data :: dataset
  scenarios :: "(string \<times> dataset) list"
  scenarios_generated :: "string list"

definition init_generator :: generator where
  "init_generator = \<lparr>financial_data = [], scenarios = [], scenarios_generated = []\<rparr>"

record response =
  status :: string
  message :: string
  scenario_type :: string
  data :: dataset
  response_metrics :: metrics

text \<open>
  \<open>_normalize_financial_data\<close> keeps every value that is a frame as it is; the datasets of
  the model hold frames only.
\<close>

definition normalize_financial_data :: "dataset \<Rightarrow> dataset" where
  "normalize_financial_data fd = fold (\<lambda>p normalized. dict_set normalized (fst p) (snd p)) fd []"

text \<open>
  \<open>generate_scenario\<close>. The result is the response or the exception raised, and the
  generator as the call leaves it in either case. Characters are code points, so the
  accented letter of the messages is \<open>CHR 0xE1\<close>.
\<close>

definition generate_scenario ::
  "set_iteration \<Rightarrow> generator \<Rightarrow> dataset \<Rightarrow> string \<Rightarrow> (string \<times> real) list option
     \<Rightarrow> (error + response) \<times> generator" where
  "generate_scenario it self fd stype parameters =
     (let self1 = self\<lparr>financial_data := normalize_financial_data fd\<rparr>;
          generated =
            (if stype = ''realista''
             then generate_realistic_scenario it (financial_data self1) parameters
             else if stype = ''pessimista''
             then generate_pessimistic_scenario it (financial_data self1) parameters
             else if stype = ''otimista''
             then generate_optimistic_scenario it (financial_data self1) parameters
             else if stype = ''agressivo''
             then generate_aggressive_scenario it (financial_data self1) parameters
             else Inl (ValueError (''Tipo de cen'' @ [CHR 0xE1] @ ''rio desconhecido: '' @ stype)))
      in
      (case generated of
         Inl e \<Rightarrow> (Inl e, self1)
       | Inr scenario_data \<Rightarrow>
           (let self2 = self1\<lparr>scenarios := dict_set (scenarios self1) stype scenario_data\<rparr>;
                self3 =
                  (if stype \<in> set (scenarios_generated self2) then self2
                   else self2\<lparr>scenarios_generated := scenarios_generated self2 @ [stype]\<rparr>);
                metrics = calculate_scenario_metrics scenario_data
            in (Inr \<lparr>status = ''success'',
                     message = ''Cen'' @ [CHR 0xE1] @ ''rio '' @ stype @ '' gerado com sucesso'',
                     scenario_type = stype,
                     data = scenario_data,
                     response_metrics = metrics\<rparr>,
                self3))))"

section \<open>The spreadsheet classifier\<close>

text \<open>
  Sheet names, labels and cells are strings of code points below 256, which hold the
  keywords of the classifier; \<open>str.lower()\<close> on them maps \<open>A\<close> to \<open>Z\<close> and the accented
  capitals \<open>0xC0\<close> to \<open>0xDE\<close> (but not the multiplication sign \<open>0xD7\<close>) 32 places up.
\<close>

definition lower_char :: "char \<Rightarrow> char" where
  "lower_char c =
     (let n = (of_char c :: nat)
      in if (65 \<le> n \<and> n \<le> 90) \<or> (192 \<le> n \<and> n \<le> 222 \<and> n \<noteq> 215)
         then char_of (n + 32) else c)"

definition lower :: "string \<Rightarrow> string" where
  "lower s = map lower_char s"

text \<open>\<open>keyword in text\<close> on strings: \<open>keyword\<close> occurs in \<open>text\<close> as a contiguous part.\<close>

fun starts_with :: "string \<Rightarrow> string \<Rightarrow> bool" where
  "starts_with [] text = True"
| "starts_with (k # ks) [] = False"
| "starts_with (k # ks) (c # cs) = (k = c \<and> starts_with ks cs)"

fun contains :: "string \<Rightarrow> string \<Rightarrow> bool" where
  "contains keyword [] = (keyword = [])"
| "contains keyword (c # cs) = (starts_with keyword (c # cs) \<or> contains keyword cs)"

text \<open>\<open>sep.join(parts)\<close>.\<close>

fun join :: "string \<Rightarrow> string list \<Rightarrow> string" where
  "join sep [] = []"
| "join sep [x] = x"
| "join sep (x # y # ys) = x @ sep @ join sep (y # ys)"

definition CATEGORY_KEYWORDS :: "(FinancialCategory \<times> string list) list" where
  "CATEGORY_KEYWORDS =
     [(REVENUE, [''receita'', ''faturamento'', ''vendas'', ''entrada'']),
      (VARIABLE_COSTS,
         [''custo vari'' @ [CHR 0xE1] @ ''vel'', ''custo operacional'',
          ''mat'' @ [CHR 0xE9] @ ''ria prima'']),
      (PERSONNEL_EXPENSES,
         [''despesa pessoal'', ''sal'' @ [CHR 0xE1] @ ''rio'',
          ''remunera'' @ [CHR 0xE7, CHR 0xE3] @ ''o'', ''benef'' @ [CHR 0xED] @ ''cio'']),
      (COMMERCIAL_EXPENSES,
         [''despesa comercial'', ''marketing'', ''vendas'', ''comiss'' @ [CHR 0xE3] @ ''o'']),
      (ADMIN_EXPENSES,
         [''despesa administrativa'', ''escrit'' @ [CHR 0xF3] @ ''rio'', ''aluguel'',
          ''utilidade'']),
      (INVESTMENTS,
         [''investimento'', ''aquisi'' @ [CHR 0xE7, CHR 0xE3] @ ''o'', ''ativo'',
          ''imobilizado''])]"

text \<open>
  One pass over the keyword table: the first category, in the order of the table, one of
  whose keywords occurs in the text.
\<close>

fun match_category ::
  "(FinancialCategory \<times> string list) list \<Rightarrow> string \<Rightarrow> FinancialCategory option" where
  "match_category [] text = None"
| "match_category (entry # rest) text =
     (if list_ex (\<lambda>keyword. contains keyword text) (snd entry) then Some (fst entry)
      else match_category rest text)"

text \<open>\<open>astype(str)\<close> of a cell of a text column: a missing cell reads \<open>nan\<close>.\<close>

definition cell_str :: "string option \<Rightarrow> string" where
  "cell_str c = (case c of None \<Rightarrow> ''nan'' | Some s \<Rightarrow> s)"

text \<open>
  The text of the cells: the text columns in order, the cells of one column joined by a
  blank, the columns put one after the other, lower-cased after every column.
\<close>

definition text_content :: "dataframe \<Rightarrow> string" where
  "text_content df =
     fold (\<lambda>c content.
             case snd c of
               Txt xs \<Rightarrow> lower (content @ join '' '' (map cell_str xs))
             | _ \<Rightarrow> content)
          (columns df) []"

definition columns_text :: "dataframe \<Rightarrow> string" where
  "columns_text df = lower (join '' '' (map fst (columns df)))"

definition identify_sheet_category :: "string \<Rightarrow> dataframe \<Rightarrow> FinancialCategory option" where
  "identify_sheet_category sheet_name df =
     (case match_category CATEGORY_KEYWORDS (lower sheet_name) of
        Some category \<Rightarrow> Some category
      | None \<Rightarrow>
          (case match_category CATEGORY_KEYWORDS (text_content df) of
             Some category \<Rightarrow> Some category
           | None \<Rightarrow> match_category CATEGORY_KEYWORDS (columns_text df)))"

text \<open>\<open>dropna(how='all')\<close>: the rows all of whose cells are missing go.\<close>

fun is_missing_at :: "coldata \<Rightarrow> nat \<Rightarrow> bool" where
  "is_missing_at (Num xs) i = (length xs \<le> i \<or> xs ! i = None)"
| "is_missing_at (Txt xs) i = (length xs \<le> i \<or> xs ! i = None)"
| "is_missing_at (Dat xs) i = (length xs \<le> i \<or> xs ! i = None)"

definition keep :: "bool list \<Rightarrow> 'a list \<Rightarrow> 'a list" where
  "keep flags xs = map fst (filter snd (zip xs flags))"

fun keep_rows :: "bool list \<Rightarrow> coldata \<Rightarrow> coldata" where
  "keep_rows flags (Num xs) = Num (keep flags xs)"
| "keep_rows flags (Txt xs) = Txt (keep flags xs)"
| "keep_rows flags (Dat xs) = Dat (keep flags xs)"

definition dropna_all :: "dataframe \<Rightarrow> dataframe" where
  "dropna_all df =
     (let flags = map (\<lambda>i. \<not> list_all (\<lambda>c. is_missing_at (snd c) i) (columns df))
                     [0..<nrows df]
      in \<lparr>nrows = length (filter (\<lambda>b. b) flags),
          columns = map (\<lambda>c. (fst c, keep_rows flags (snd c))) (columns df)\<rparr>)"

text \<open>The labels taken for dates or periods.\<close>

definition is_date_label :: "string \<Rightarrow> bool" where
  "is_date_label col \<longleftrightarrow>
     contains ''data'' (lower col) \<or>
     contains (''per'' @ [CHR 0xED] @ ''odo'') (lower col) \<or>
     contains ''mes'' (lower col) \<or>
     contains (''m'' @ [CHR 0xEA] @ ''s'') (lower col)"

text \<open>
  \<open>_process_dataframe_by_category\<close>. \<open>pd.to_datetime(column, errors='coerce')\<close> is a
  parameter: it gives the cells of the converted column, which is a date-time column, or
  \<open>None\<close> where it raises and the column stays as it is. The conversion of the numeric
  columns to \<open>float\<close> leaves real cells as they are.
\<close>

type_synonym to_datetime = "coldata \<Rightarrow> int option list option"

definition process_dataframe_by_category ::
  "to_datetime \<Rightarrow> dataframe \<Rightarrow> FinancialCategory \<Rightarrow> dataframe" where
  "process_dataframe_by_category to_datetime df category =
     (let processed_df = dropna_all df
      in processed_df
           \<lparr>columns :=
              map (\<lambda>c. if is_date_label (fst c)
                        then (case to_datetime (snd c) of
                                None \<Rightarrow> c
                              | Some converted \<Rightarrow> (fst c, Dat converted))
                        else c)
                  (columns processed_df)\<rparr>)"

text \<open>
  \<open>_extract_financial_data\<close> over the sheets of the workbook in order, on the data that
  the processor holds.
\<close>

fun extract_financial_data ::
  "to_datetime \<Rightarrow> dataset \<Rightarrow> (string \<times> dataframe) list \<Rightarrow> dataset" where
  "extract_financial_data to_datetime fd [] = fd"
| "extract_financial_data to_datetime fd (sheet # rest) =
     (if df_empty (snd sheet) then extract_financial_data to_datetime fd rest
      else
        (case identify_sheet_category (fst sheet) (snd sheet) of
           None \<Rightarrow> extract_financial_data to_datetime fd rest
         | Some category \<Rightarrow>
             extract_financial_data to_datetime
               (dict_set fd (category_value category)
                  (process_dataframe_by_category to_datetime (snd sheet) category))
               rest))"

definition validate_excel_structure :: "(string \<times> dataframe) list \<Rightarrow> error + unit" where
  "validate_excel_structure excel_data =
     (if excel_data = []
      then Inl (ExcelValidationError
             (''O arquivo Excel n'' @ [CHR 0xE3] @ ''o cont'' @ [CHR 0xE9] @ ''m planilhas.''))
      else if list_ex (\<lambda>sheet. \<not> df_empty (snd sheet) \<and> nrows (snd sheet) > 0
                                 \<and> length (columns (snd sheet)) > 0) excel_data
      then Inr ()
      else Inl (ExcelValidationError
             (''O arquivo Excel n'' @ [CHR 0xE3] @ ''o cont'' @ [CHR 0xE9] @ ''m dados v''
              @ [CHR 0xE1] @ ''lidos em nenhuma planilha.'')))"

fun check_numeric_columns :: "dataset \<Rightarrow> error + unit" where
  "check_numeric_columns [] = Inr ()"
| "check_numeric_columns (entry # rest) =
     (if length (numeric_cols (snd entry)) = 0
      then Inl (ExcelValidationError
             (''A categoria '' @ [CHR 0x27] @ fst entry @ [CHR 0x27] @ '' n'' @ [CHR 0xE3]
              @ ''o cont'' @ [CHR 0xE9] @ ''m colunas num'' @ [CHR 0xE9] @ ''ricas para an''
              @ [CHR 0xE1] @ ''lise.''))
      else check_numeric_columns rest)"

definition validate_financial_data :: "dataset \<Rightarrow> error + unit" where
  "validate_financial_data fd =
     (if fd = []
      then Inl (ExcelValidationError
             (''N'' @ [CHR 0xE3] @ ''o foi poss'' @ [CHR 0xED] @ ''vel extrair dados financeiros. ''
              @ ''Verifique se o arquivo cont'' @ [CHR 0xE9] @ ''m categorias reconhec''
              @ [CHR 0xED] @ ''veis.''))
      else check_numeric_columns fd)"

text \<open>
  \<open>process_excel_data\<close> from the sheets that \<open>pd.read_excel\<close> returns, on a processor
  holding the data \<open>fd\<close>: the data of the response or the exception raised, and the data
  that the processor holds afterwards. A new processor holds no data.
\<close>

definition process_excel_data ::
  "to_datetime \<Rightarrow> dataset \<Rightarrow> (string \<times> dataframe) list
     \<Rightarrow> (error + dataset) \<times> dataset" where
  "process_excel_data to_datetime fd excel_data =
     (case validate_excel_structure excel_data of
        Inl e \<Rightarrow> (Inl e, fd)
      | Inr u \<Rightarrow>
          (let fd' = extract_financial_data to_datetime fd excel_data
           in (case validate_financial_data fd' of
                 Inl e \<Rightarrow> (Inl e, fd')
               | Inr u' \<Rightarrow> (Inr fd', fd'))))"

section \<open>Notions used to state the properties\<close>

text \<open>\<open>df[col].sum()\<close> for a numeric column of the frame, 0 for any other label.\<close>

definition column_total :: "dataframe \<Rightarrow> string \<Rightarrow> real" where
  "column_total df col = (case map_of (columns df) col of Some (Num xs) \<Rightarrow> nansum xs | _ \<Rightarrow> 0)"

text \<open>
  A dataset with fully populated categories: revenue, variable costs and at least one
  fixed-expense category are present, and every one of these categories that is present
  has unique labels and the numeric columns of the revenue frame, in the same order.
\<close>

definition periods_aligned :: "dataset \<Rightarrow> string list \<Rightarrow> bool" where
  "periods_aligned fd periods \<longleftrightarrow>
     list_all (\<lambda>c. case map_of fd (category_value c) of
                      None \<Rightarrow> True
                    | Some df \<Rightarrow> distinct (map fst (columns df)) \<and> numeric_cols df = periods)
              (REVENUE_CATEGORIES @ VARIABLE_COST_CATEGORIES @ FIXED_EXPENSE_CATEGORIES)"

definition fully_populated :: "dataset \<Rightarrow> bool" where
  "fully_populated fd \<longleftrightarrow>
     (case map_of fd (category_value REVENUE) of
        None \<Rightarrow> False
      | Some revenue_df \<Rightarrow>
          map_of fd (category_value VARIABLE_COSTS) \<noteq> None \<and>
          list_ex (\<lambda>c. map_of fd (category_value c) \<noteq> None) FIXED_EXPENSE_CATEGORIES \<and>
          periods_aligned fd (numeric_cols revenue_df))"

text \<open>
  The words of the specification of the classifier: a keyword occurs in a text as a
  contiguous part; a keyword list matches a text when one of its keywords occurs in it; the
  category of a text is the first category of the table, in its order, whose list
  matches.
\<close>

definition occurs_in :: "string \<Rightarrow> string \<Rightarrow> bool" where
  "occurs_in keyword text \<longleftrightarrow> (\<exists>before after. text = before @ keyword @ after)"

definition keyword_match :: "string list \<Rightarrow> string \<Rightarrow> bool" where
  "keyword_match keywords text \<longleftrightarrow> (\<exists>keyword \<in> set keywords. occurs_in keyword text)"

definition first_category :: "string \<Rightarrow> FinancialCategory option" where
  "first_category text =
     map_option fst (find (\<lambda>entry. keyword_match (snd entry) text) CATEGORY_KEYWORDS)"

text \<open>
  The text of the cells as the specification has it: the contents of the text columns,
  concatenated and lower-cased.
\<close>

definition sheet_text :: "dataframe \<Rightarrow> string" where
  "sheet_text df =
     lower (concat (map (\<lambda>c. case snd c of Txt xs \<Rightarrow> join '' '' (map cell_str xs) | _ \<Rightarrow> [])
                        (columns df)))"

text \<open>A sheet that the extraction classifies to the category: not empty, and identified.\<close>

definition classified_as :: "FinancialCategory \<Rightarrow> string \<times> dataframe \<Rightarrow> bool" where
  "classified_as c sheet \<longleftrightarrow>
     \<not> df_empty (snd sheet) \<and> identify_sheet_category (fst sheet) (snd sheet) = Some c"

text \<open>The three cases of a failed extraction.\<close>

definition no_tabular_data :: "(string \<times> dataframe) list \<Rightarrow> bool" where
  "no_tabular_data excel_data \<longleftrightarrow> list_all (\<lambda>sheet. df_empty (snd sheet)) excel_data"

definition no_category_recognized :: "(string \<times> dataframe) list \<Rightarrow> bool" where
  "no_category_recognized excel_data \<longleftrightarrow>
     list_all (\<lambda>sheet. df_empty (snd sheet) \<or>
                        identify_sheet_category (fst sheet) (snd sheet) = None) excel_data"

definition category_without_numbers :: "dataset \<Rightarrow> bool" where
  "category_without_numbers fd \<longleftrightarrow> list_ex (\<lambda>entry. numeric_cols (snd entry) = []) fd"

section \<open>Example data\<close>

text \<open>The dataset of the generator's tests: three rows, the months \<open>Jan\<close>, \<open>Fev\<close>, \<open>Mar\<close>.\<close>

definition sample_data :: dataset where
  "sample_data =
     [(''receitas'',
       \<lparr>nrows = 3,
        columns =
          [(''Descri'' @ [CHR 0xE7, CHR 0xE3] @ ''o'',
              Txt [Some ''Produto A'', Some ''Produto B'', Some (''Servi'' @ [CHR 0xE7] @ ''o X'')]),
           (''Jan'', Num [Some 100000, Some 150000, Some 50000]),
           (''Fev'', Num [Some 105000, Some 155000, Some 52000]),
           (''Mar'', Num [Some 110000, Some 160000, Some 55000])]\<rparr>),
      (''custos_variaveis'',
       \<lparr>nrows = 3,
        columns =
          [(''Descri'' @ [CHR 0xE7, CHR 0xE3] @ ''o'',
              Txt [Some ''Custo A'', Some ''Custo B'', Some ''Custo C'']),
           (''Jan'', Num [Some 40000, Some 30000, Some 20000]),
           (''Fev'', Num [Some 42000, Some 31000, Some 21000]),
           (''Mar'', Num [Some 44000, Some 32000, Some 22000])]\<rparr>),
      (''despesas_pessoal'',
       \<lparr>nrows = 3,
        columns =
          [(''Descri'' @ [CHR 0xE7, CHR 0xE3] @ ''o'',
              Txt [Some (''Sal'' @ [CHR 0xE1] @ ''rios''), Some (''Benef'' @ [CHR 0xED] @ ''cios''),
                   Some ''Encargos'']),
           (''Jan'', Num [Some 50000, Some 15000, Some 20000]),
           (''Fev'', Num [Some 50000, Some 15000, Some 20000]),
           (''Mar'', Num [Some 50000, Some 15000, Some 20000])]\<rparr>),
      (''despesas_administrativas'',
       \<lparr>nrows = 3,
        columns =
          [(''Descri'' @ [CHR 0xE7, CHR 0xE3] @ ''o'',
              Txt [Some ''Aluguel'', Some ''Utilities'', Some ''Materiais'']),
           (''Jan'', Num [Some 15000, Some 5000, Some 2000]),
           (''Fev'', Num [Some 15000, Some 5500, Some 2100]),
           (''Mar'', Num [Some 15000, Some 6000, Some 2200])]\<rparr>),
      (''investimentos'',
       \<lparr>nrows = 3,
        columns =
          [(''Descri'' @ [CHR 0xE7, CHR 0xE3] @ ''o'',
              Txt [Some ''Equipamentos'', Some ''Marketing'', Some ''P&D'']),
           (''Jan'', Num [Some 20000, Some 10000, Some 5000]),
           (''Fev'', Num [Some 5000, Some 12000, Some 5000]),
           (''Mar'', Num [Some 10000, Some 15000, Some 5000])]\<rparr>)]"

definition sample_realistic :: response where
  "sample_realistic =
     projr (fst (generate_scenario insertion_order init_generator sample_data ''realista'' None))"

definition sample_pessimistic :: response where
  "sample_pessimistic =
     projr (fst (generate_scenario insertion_order init_generator sample_data ''pessimista'' None))"

text \<open>A month in which refunds exceed sales: the revenue sums to a negative amount.\<close>

definition refund_data :: dataset where
  "refund_data =
     [(''receitas'', \<lparr>nrows = 1, columns = [(''Jan'', Num [Some (- 100)])]\<rparr>),
      (''custos_variaveis'', \<lparr>nrows = 1, columns = [(''Jan'', Num [Some 20])]\<rparr>),
      (''despesas_pessoal'', \<lparr>nrows = 1, columns = [(''Jan'', Num [Some 30])]\<rparr>)]"

definition refund_metrics :: metrics where
  "refund_metrics =
     response_metrics
       (projr (fst (generate_scenario insertion_order init_generator refund_data
                      ''realista'' None)))"

text \<open>
  Two months of data in one row, and the same with an investments sheet that has only one
  of the two months.
\<close>

definition two_month_data :: dataset where
  "two_month_data =
     [(''receitas'',
       \<lparr>nrows = 1, columns = [(''Jan'', Num [Some 100]), (''Fev'', Num [Some 200])]\<rparr>),
      (''custos_variaveis'',
       \<lparr>nrows = 1, columns = [(''Jan'', Num [Some 40]), (''Fev'', Num [Some 50])]\<rparr>),
      (''despesas_pessoal'',
       \<lparr>nrows = 1, columns = [(''Jan'', Num [Some 10]), (''Fev'', Num [Some 20])]\<rparr>)]"

definition fev_investment_data :: dataset where
  "fev_investment_data =
     two_month_data @ [(''investimentos'', \<lparr>nrows = 1, columns = [(''Fev'', Num [Some 5])]\<rparr>)]"

definition jan_investment_data :: dataset where
  "jan_investment_data =
     two_month_data @ [(''investimentos'', \<lparr>nrows = 1, columns = [(''Jan'', Num [Some 5])]\<rparr>)]"

text \<open>The data of the scenario that a new generator returns for a call without parameters.\<close>

definition scenario_returned :: "set_iteration \<Rightarrow> dataset \<Rightarrow> string \<Rightarrow> bool" where
  "scenario_returned it fd stype \<longleftrightarrow>
     \<not> isl (fst (generate_scenario it init_generator fd stype None))"

definition scenario_data :: "set_iteration \<Rightarrow> dataset \<Rightarrow> string \<Rightarrow> dataset" where
  "scenario_data it fd stype =
     data (projr (fst (generate_scenario it init_generator fd stype None)))"

text \<open>A workbook: two revenue sheets, a sheet of notes, and a revenue sheet without numbers.\<close>

definition revenue_sheet_q1 :: "string \<times> dataframe" where
  "revenue_sheet_q1 =
     (''Receitas T1'',
      \<lparr>nrows = 2,
       columns = [(''Produto'', Txt [Some ''A'', Some ''B'']), (''Jan'', Num [Some 100, Some 50])]\<rparr>)"

definition revenue_sheet_q2 :: "string \<times> dataframe" where
  "revenue_sheet_q2 =
     (''Receitas T2'',
      \<lparr>nrows = 2,
       columns = [(''Produto'', Txt [Some ''A'', Some ''B'']), (''Abr'', Num [Some 250, None])]\<rparr>)"

definition notes_sheet :: "string \<times> dataframe" where
  "notes_sheet = (''Notas'', \<lparr>nrows = 1, columns = [(''Obs'', Txt [Some ''rever'']), (''N'', Num [Some 1])]\<rparr>)"

definition sales_text_sheet :: "string \<times> dataframe" where
  "sales_text_sheet = (''Vendas'', \<lparr>nrows = 1, columns = [(''Obs'', Txt [Some ''sem dados''])]\<rparr>)"

text \<open>A conversion to dates that raises on every column, so that every column stays.\<close>

definition no_dates :: to_datetime where
  "no_dates d = None"

section \<open>Properties of the scenario generator\<close>

lemma generate_scenario_metrics:
  assumes "fst (generate_scenario it self fd stype parameters) = Inr r"
  shows "response_metrics r = calculate_scenario_metrics (data r)"
  using assms
  by (auto simp: generate_scenario_def Let_def split: sum.splits if_splits)

lemma sample_realistic_returned:
  "fst (generate_scenario insertion_order init_generator sample_data ''realista'' None) =
     Inr sample_realistic"
  unfolding sample_realistic_def by code_simp

lemma map_of_dict_set:
  "map_of (dict_set ps k v) k' = (if k' = k then Some v else map_of ps k')"
  by (induction ps) auto

lemma keys_dict_set: "fst ` set (dict_set ps k v) = insert k (fst ` set ps)"
  by (induction ps) auto

lemma dict_set_fresh: "k \<notin> fst ` set ps \<Longrightarrow> dict_set ps k v = ps @ [(k, v)]"
  by (induction ps) auto

lemma normalize_fold:
  "distinct (map fst (acc @ xs)) \<Longrightarrow>
   fold (\<lambda>p normalized. dict_set normalized (fst p) (snd p)) xs acc = acc @ xs"
proof (induction xs arbitrary: acc)
  case Nil
  then show ?case by simp
next
  case (Cons x xs)
  have fresh: "fst x \<notin> fst ` set acc" using Cons.prems by auto
  have "distinct (map fst ((acc @ [x]) @ xs))" using Cons.prems by simp
  from Cons.IH [OF this] show ?case by (simp add: dict_set_fresh [OF fresh])
qed

lemma normalize_dict: "distinct (map fst fd) \<Longrightarrow> normalize_financial_data fd = fd"
  using normalize_fold [of "[]" fd] by (simp add: normalize_financial_data_def)

lemma recalculate_shape:
  assumes "recalculate_derived_values it sd = Inr out"
  shows "\<exists>margin_df cashflow_df balance_df.
           out = dict_set
                   (dict_set (dict_set sd (category_value CONTRIBUTION_MARGIN) margin_df)
                      (category_value CASH_FLOW) cashflow_df)
                   (category_value FINAL_BALANCE) balance_df"
  using assms
  by (simp add: recalculate_derived_values_def Let_def split: sum.splits) blast

lemma recalculate_keeps_others:
  assumes "recalculate_derived_values it sd = Inr out"
    and "key \<notin> set (map category_value CALCULATED_CATEGORIES)"
  shows "map_of out key = map_of sd key"
  using recalculate_shape [OF assms(1)] assms(2)
  by (auto simp: CALCULATED_CATEGORIES_def map_of_dict_set)

lemma recalculate_keys:
  assumes "recalculate_derived_values it sd = Inr out"
  shows "set (map fst out) = set (map fst sd) \<union> set (map category_value CALCULATED_CATEGORIES)"
proof -
  from recalculate_shape [OF assms] obtain a b c where
    "out = dict_set (dict_set (dict_set sd (category_value CONTRIBUTION_MARGIN) a)
                      (category_value CASH_FLOW) b) (category_value FINAL_BALANCE) c"
    by blast
  then have "fst ` set out =
    insert (category_value FINAL_BALANCE) (insert (category_value CASH_FLOW)
      (insert (category_value CONTRIBUTION_MARGIN) (fst ` set sd)))"
    by (simp only: keys_dict_set)
  then show ?thesis by (auto simp: CALCULATED_CATEGORIES_def)
qed

lemma map_of_scale_category:
  "map_of (scale_category k c sd) key =
     (if key = category_value c then map_option (scale_numeric k) (map_of sd key)
      else map_of sd key)"
  by (auto simp: scale_category_def map_of_dict_set split: option.splits)

lemma generate_scenario_data:
  assumes "fst (generate_scenario it self fd stype parameters) = Inr r"
  shows "(if stype = ''realista''
             then generate_realistic_scenario it (normalize_financial_data fd) parameters
             else if stype = ''pessimista''
             then generate_pessimistic_scenario it (normalize_financial_data fd) parameters
             else if stype = ''otimista''
             then generate_optimistic_scenario it (normalize_financial_data fd) parameters
             else generate_aggressive_scenario it (normalize_financial_data fd) parameters) = Inr (data r)"
  using assms
  by (auto simp: generate_scenario_def Let_def split: sum.splits if_splits)

lemma periods_alignedD:
  assumes "periods_aligned fd periods"
    and "c \<in> set (REVENUE_CATEGORIES @ VARIABLE_COST_CATEGORIES @ FIXED_EXPENSE_CATEGORIES)"
    and "map_of fd (category_value c) = Some df"
  shows "distinct (map fst (columns df)) \<and> numeric_cols df = periods"
  using assms unfolding periods_aligned_def list_all_iff by force

lemma numeric_col_lookup:
  assumes "distinct (map fst (columns df))" and "col \<in> set (numeric_cols df)"
  shows "\<exists>xs. map_of (columns df) col = Some (Num xs)"
proof -
  from assms(2) obtain d where d: "(col, d) \<in> set (columns df)" "is_numeric d"
    by (auto simp: numeric_cols_def)
  with assms(1) have "map_of (columns df) col = Some d" by simp
  with d(2) show ?thesis by (cases d) auto
qed

lemma add_column_sums_numeric:
  assumes "\<forall>col \<in> set cols. \<forall>d. map_of (columns df) col = Some d \<longrightarrow> is_numeric d"
  shows "\<exists>result'. add_column_sums df cols result = Inr result' \<and> length result' = length result"
  using assms
proof (induction df cols result rule: add_column_sums.induct)
  case (1 df col cols r rs)
  have rest: "\<forall>col \<in> set cols. \<forall>d. map_of (columns df) col = Some d \<longrightarrow> is_numeric d"
    using "1.prems" by simp
  show ?case
  proof (cases "map_of (columns df) col")
    case None
    from "1.IH"(1) [OF None rest] None show ?thesis by auto
  next
    case (Some d)
    with "1.prems" have "is_numeric d" by simp
    then obtain xs where d: "d = Num xs" by (cases d) auto
    then have "series_sum d = Inr (nansum xs)" by simp
    from "1.IH"(2) [OF Some this rest] Some d show ?thesis by auto
  qed
qed simp_all

lemma add_categories_numeric:
  assumes "\<forall>c \<in> set cats. \<forall>df. map_of ds (category_value c) = Some df \<longrightarrow>
             (\<forall>col \<in> set cols. \<forall>d. map_of (columns df) col = Some d \<longrightarrow> is_numeric d)"
  shows "\<exists>result'. add_categories ds cats cols result = Inr result' \<and>
           length result' = length result"
  using assms
proof (induction cats arbitrary: result)
  case Nil
  then show ?case by simp
next
  case (Cons c cats)
  show ?case
  proof (cases "map_of ds (category_value c)")
    case None
    with Cons show ?thesis by simp
  next
    case (Some df)
    with Cons.prems
    have "\<forall>col \<in> set cols. \<forall>d. map_of (columns df) col = Some d \<longrightarrow> is_numeric d"
      by simp
    from add_column_sums_numeric [OF this, of result]
    obtain r where r: "add_column_sums df cols result = Inr r" "length r = length result"
      by blast
    from Cons.IH [of r] Cons.prems
    obtain r' where "add_categories ds cats cols r = Inr r'" "length r' = length r"
      by auto
    with Some r show ?thesis by simp
  qed
qed

lemma group_columns_aligned:
  assumes "\<forall>c \<in> set cats. \<forall>df. map_of fd (category_value c) = Some df \<longrightarrow> numeric_cols df = periods"
  shows "set (group_numeric_columns fd cats) =
           (if \<exists>c \<in> set cats. map_of fd (category_value c) \<noteq> None then set periods else {})"
  using assms
  by (induction cats) (auto simp: group_numeric_columns_def split: option.splits)

lemma sum_category_values_aligned:
  assumes it: "valid_iteration it"
    and aligned: "\<forall>c \<in> set cats. \<forall>df. map_of fd (category_value c) = Some df \<longrightarrow>
                    distinct (map fst (columns df)) \<and> numeric_cols df = periods"
    and present: "\<exists>c \<in> set cats. map_of fd (category_value c) \<noteq> None"
  shows "\<exists>totals. sum_category_values it fd cats = Inr totals \<and> length totals = card (set periods)"
proof -
  let ?cols = "listing it (group_numeric_columns fd cats)"
  have set_cols: "set ?cols = set periods"
    using it group_columns_aligned [of cats fd periods] aligned present
    by (auto simp: valid_iteration_def)
  have len: "length ?cols = card (set periods)"
    using it set_cols distinct_card [of ?cols] by (simp add: valid_iteration_def)
  have "\<forall>c \<in> set cats. \<forall>df. map_of fd (category_value c) = Some df \<longrightarrow>
          (\<forall>col \<in> set ?cols. \<forall>d. map_of (columns df) col = Some d \<longrightarrow> is_numeric d)"
  proof (intro ballI allI impI)
    fix c df col d
    assume c: "c \<in> set cats" and df: "map_of fd (category_value c) = Some df"
      and col: "col \<in> set ?cols" and d: "map_of (columns df) col = Some d"
    from aligned c df have "distinct (map fst (columns df))" "numeric_cols df = periods" by auto
    with col set_cols numeric_col_lookup [of df col] d show "is_numeric d" by auto
  qed
  from add_categories_numeric [OF this, of "replicate (length ?cols) 0"] len
  show ?thesis by (auto simp: sum_category_values_def Let_def)
qed

lemma recalculate_returns:
  assumes "valid_iteration it" and "fully_populated sd"
  shows "\<exists>out. recalculate_derived_values it sd = Inr out"
proof -
  from assms(2) obtain revenue_df where
    revenue: "map_of sd (category_value REVENUE) = Some revenue_df"
    and costs: "map_of sd (category_value VARIABLE_COSTS) \<noteq> None"
    and fixed: "list_ex (\<lambda>c. map_of sd (category_value c) \<noteq> None) FIXED_EXPENSE_CATEGORIES"
    and aligned: "periods_aligned sd (numeric_cols revenue_df)"
    by (auto simp: fully_populated_def split: option.splits)
  define periods where "periods = numeric_cols revenue_df"
  have group: "\<exists>totals. sum_category_values it sd cats = Inr totals \<and>
                 length totals = card (set periods)"
    if sub: "set cats \<subseteq> set (REVENUE_CATEGORIES @ VARIABLE_COST_CATEGORIES @
                                  FIXED_EXPENSE_CATEGORIES)"
      and present: "\<exists>c \<in> set cats. map_of sd (category_value c) \<noteq> None" for cats
  proof (rule sum_category_values_aligned [OF assms(1) _ present])
    show "\<forall>c \<in> set cats. \<forall>df. map_of sd (category_value c) = Some df \<longrightarrow>
            distinct (map fst (columns df)) \<and> numeric_cols df = periods"
      using periods_alignedD [OF aligned] sub unfolding periods_def by blast
  qed
  from revenue have "\<exists>c \<in> set REVENUE_CATEGORIES. map_of sd (category_value c) \<noteq> None"
    by (simp add: REVENUE_CATEGORIES_def)
  from group [OF _ this]
  obtain rs where rs: "sum_category_values it sd REVENUE_CATEGORIES = Inr rs"
    "length rs = card (set periods)" by auto
  from costs
  have "\<exists>c \<in> set VARIABLE_COST_CATEGORIES. map_of sd (category_value c) \<noteq> None"
    by (simp add: VARIABLE_COST_CATEGORIES_def)
  from group [OF _ this]
  obtain cs where cs: "sum_category_values it sd VARIABLE_COST_CATEGORIES = Inr cs"
    "length cs = card (set periods)" by auto
  from fixed
  have "\<exists>c \<in> set FIXED_EXPENSE_CATEGORIES. map_of sd (category_value c) \<noteq> None"
    by (simp add: list_ex_iff)
  from group [OF _ this]
  obtain fs where fs: "sum_category_values it sd FIXED_EXPENSE_CATEGORIES = Inr fs"
    "length fs = card (set periods)" by auto
  show ?thesis
    using rs cs fs by (simp add: recalculate_derived_values_def Let_def np_binop_def)
qed

lemma numeric_cols_scale_numeric: "numeric_cols (scale_numeric k df) = numeric_cols df"
proof -
  have "is_numeric (scale_coldata k d) = is_numeric d" for d by (cases d) auto
  then show ?thesis
    by (simp add: numeric_cols_def scale_numeric_def filter_map comp_def)
qed

lemma labels_scale_numeric: "map fst (columns (scale_numeric k df)) = map fst (columns df)"
  by (simp add: scale_numeric_def comp_def)

lemma scale_category_lookup:
  "map_of (scale_category k c sd) key =
     map_option (\<lambda>df. if key = category_value c then scale_numeric k df else df) (map_of sd key)"
  by (cases "map_of sd key")
     (auto simp: scale_category_def map_of_dict_set split: option.splits)

lemma periods_aligned_scale_category:
  assumes "periods_aligned sd periods"
  shows "periods_aligned (scale_category k c sd) periods"
  using assms
  unfolding periods_aligned_def list_all_iff
  by (auto simp: scale_category_lookup numeric_cols_scale_numeric labels_scale_numeric
           split: option.splits)

lemma fully_populated_scale_category:
  assumes "fully_populated sd"
  shows "fully_populated (scale_category k c sd)"
proof -
  from assms obtain revenue_df where
    revenue: "map_of sd (category_value REVENUE) = Some revenue_df"
    and costs: "map_of sd (category_value VARIABLE_COSTS) \<noteq> None"
    and fixed: "list_ex (\<lambda>c. map_of sd (category_value c) \<noteq> None) FIXED_EXPENSE_CATEGORIES"
    and aligned: "periods_aligned sd (numeric_cols revenue_df)"
    by (auto simp: fully_populated_def split: option.splits)
  have present: "map_of (scale_category k c sd) key \<noteq> None" if "map_of sd key \<noteq> None" for key
    using that by (simp add: scale_category_lookup)
  obtain revenue_df' where
    revenue': "map_of (scale_category k c sd) (category_value REVENUE) = Some revenue_df'"
    and cols: "numeric_cols revenue_df' = numeric_cols revenue_df"
    using revenue by (simp add: scale_category_lookup numeric_cols_scale_numeric)
  have "list_ex (\<lambda>c'. map_of (scale_category k c sd) (category_value c') \<noteq> None)
          FIXED_EXPENSE_CATEGORIES"
    using fixed present unfolding list_ex_iff by blast
  with revenue' cols present [OF costs] periods_aligned_scale_category [OF aligned]
  show ?thesis by (simp add: fully_populated_def)
qed

lemma fully_populated_fold_scale:
  "fully_populated sd \<Longrightarrow> fully_populated (fold (scale_category k) cats sd)"
  by (induction cats arbitrary: sd) (auto simp: fully_populated_scale_category)

lemma first_occurrences_set: "set (first_occurrences xs) = set xs"
  by (induction xs) auto

lemma first_occurrences_distinct: "distinct (first_occurrences xs)"
  by (induction xs) (auto simp: first_occurrences_set)

lemma in_all_set: "xss \<noteq> [] \<Longrightarrow> set (in_all xss) = (\<Inter>xs\<in>set xss. set xs)"
  by (cases xss) (auto simp: in_all_def first_occurrences_set list_all_iff)

lemma in_all_distinct: "distinct (in_all xss)"
  by (cases xss) (auto simp: in_all_def first_occurrences_distinct)

lemma insertion_order_valid: "valid_iteration insertion_order"
  by (simp add: valid_iteration_def insertion_order_def first_occurrences_set
        first_occurrences_distinct in_all_set in_all_distinct)

lemma reversed_order_valid: "valid_iteration reversed_order"
  by (simp add: valid_iteration_def reversed_order_def first_occurrences_set
        first_occurrences_distinct in_all_set in_all_distinct)

lemma generate_realistic_returned:
  assumes "recalculate_derived_values it (normalize_financial_data fd) = Inr out"
  shows "\<exists>r. fst (generate_scenario it self fd ''realista'' parameters) = Inr r \<and> data r = out"
  using assms by (simp add: generate_scenario_def generate_realistic_scenario_def Let_def)

lemma generate_pessimistic_returned:
  assumes "generate_pessimistic_scenario it (normalize_financial_data fd) parameters = Inr out"
  shows "\<exists>r. fst (generate_scenario it self fd ''pessimista'' parameters) = Inr r \<and> data r = out"
  using assms by (simp add: generate_scenario_def Let_def)

lemma sample_data_populated: "distinct (map fst sample_data) \<and> fully_populated sample_data"
  by code_simp

lemma sample_pessimistic_returned:
  "fst (generate_scenario insertion_order init_generator sample_data ''pessimista'' None) =
     Inr sample_pessimistic"
  unfolding sample_pessimistic_def by code_simp

text \<open>
  Claim C4. For a dataset with fully populated categories the realistic scenario is
  returned, under every iteration order of the sets. Whenever it is returned, its keys are
  those of the input and the three derived categories, and every category other than the
  three derived ones holds the frame of the input, every cell unchanged.
\<close>

theorem realistic_keeps_base_categories:
  assumes "distinct (map fst fd)"
  shows "(valid_iteration it \<longrightarrow> fully_populated fd \<longrightarrow>
            (\<exists>r. fst (generate_scenario it self fd ''realista'' parameters) = Inr r)) \<and>
         (\<forall>r. fst (generate_scenario it self fd ''realista'' parameters) = Inr r \<longrightarrow>
            set (map fst (data r)) =
              set (map fst fd) \<union> set (map category_value CALCULATED_CATEGORIES) \<and>
            (\<forall>key. key \<notin> set (map category_value CALCULATED_CATEGORIES) \<longrightarrow>
               map_of (data r) key = map_of fd key))"
proof (intro conjI impI allI)
  assume "valid_iteration it" and "fully_populated fd"
  from recalculate_returns [OF this] obtain out where
    "recalculate_derived_values it fd = Inr out" by blast
  with generate_realistic_returned [of it fd out self parameters] normalize_dict [OF assms]
  show "\<exists>r. fst (generate_scenario it self fd ''realista'' parameters) = Inr r" by auto
next
  fix r
  assume "fst (generate_scenario it self fd ''realista'' parameters) = Inr r"
  from generate_scenario_data [OF this] normalize_dict [OF assms]
  have out: "recalculate_derived_values it fd = Inr (data r)"
    by (simp add: generate_realistic_scenario_def)
  show "set (map fst (data r)) =
          set (map fst fd) \<union> set (map category_value CALCULATED_CATEGORIES)"
    using recalculate_keys [OF out] .
  fix key
  assume "key \<notin> set (map category_value CALCULATED_CATEGORIES)"
  from recalculate_keeps_others [OF out this] show "map_of (data r) key = map_of fd key" .
qed

theorem realistic_keeps_base_categories_witness:
  "valid_iteration insertion_order \<and> distinct (map fst sample_data) \<and>
   fully_populated sample_data \<and>
   fst (generate_scenario insertion_order init_generator sample_data ''realista'' None) =
     Inr sample_realistic \<and>
   map_of (data sample_realistic) ''receitas'' = map_of sample_data ''receitas'' \<and>
   map_of (data sample_realistic) ''custos_variaveis'' = map_of sample_data ''custos_variaveis'' \<and>
   map_of (data sample_realistic) ''despesas_pessoal'' = map_of sample_data ''despesas_pessoal'' \<and>
   map_of (data sample_realistic) ''investimentos'' = map_of sample_data ''investimentos'' \<and>
   set (map fst (data sample_realistic)) =
     set (map fst sample_data) \<union> set (map category_value CALCULATED_CATEGORIES)"
proof -
  have keys: "distinct (map fst sample_data)" using sample_data_populated by simp
  note frame = realistic_keeps_base_categories
                 [OF keys, of insertion_order init_generator None, THEN conjunct2, rule_format,
                  OF sample_realistic_returned]
  have "key \<notin> set (map category_value CALCULATED_CATEGORIES)
          \<Longrightarrow> map_of (data sample_realistic) key = map_of sample_data key" for key
    using frame by blast
  then have "map_of (data sample_realistic) ''receitas'' = map_of sample_data ''receitas''"
    and "map_of (data sample_realistic) ''custos_variaveis''
           = map_of sample_data ''custos_variaveis''"
    and "map_of (data sample_realistic) ''despesas_pessoal''
           = map_of sample_data ''despesas_pessoal''"
    and "map_of (data sample_realistic) ''investimentos'' = map_of sample_data ''investimentos''"
    by (simp_all add: CALCULATED_CATEGORIES_def)
  with frame sample_realistic_returned insertion_order_valid sample_data_populated
  show ?thesis by blast
qed

text \<open>
  Claim C5. Whenever the pessimistic scenario is returned for a call without parameters,
  the revenue frame of the result is that of the input with every numeric cell times
  0.85, the frames of the variable costs and of the three fixed-expense categories are
  those of the input with every numeric cell times 1.10, and the investments are those of
  the input. For a dataset with fully populated categories the scenario is returned, under
  every iteration order of the sets.
\<close>

theorem pessimistic_defaults:
  assumes "distinct (map fst fd)"
  shows "(valid_iteration it \<longrightarrow> fully_populated fd \<longrightarrow>
            (\<exists>r. fst (generate_scenario it self fd ''pessimista'' None) = Inr r)) \<and>
         (\<forall>r. fst (generate_scenario it self fd ''pessimista'' None) = Inr r \<longrightarrow>
            map_of (data r) (category_value REVENUE) =
              map_option (scale_numeric 0.85) (map_of fd (category_value REVENUE)) \<and>
            map_of (data r) (category_value VARIABLE_COSTS) =
              map_option (scale_numeric 1.10) (map_of fd (category_value VARIABLE_COSTS)) \<and>
            map_of (data r) (category_value PERSONNEL_EXPENSES) =
              map_option (scale_numeric 1.10) (map_of fd (category_value PERSONNEL_EXPENSES)) \<and>
            map_of (data r) (category_value COMMERCIAL_EXPENSES) =
              map_option (scale_numeric 1.10) (map_of fd (category_value COMMERCIAL_EXPENSES)) \<and>
            map_of (data r) (category_value ADMIN_EXPENSES) =
              map_option (scale_numeric 1.10) (map_of fd (category_value ADMIN_EXPENSES)) \<and>
            map_of (data r) (category_value INVESTMENTS) =
              map_of fd (category_value INVESTMENTS))"
proof -
  define sd where "sd =
    fold (scale_category (1 + 0.10)) FIXED_EXPENSE_CATEGORIES
      (fold (scale_category (1 + 0.10)) VARIABLE_COST_CATEGORIES
         (fold (scale_category (1 + (- 0.15))) REVENUE_CATEGORIES fd))"
  have pessimistic:
    "generate_pessimistic_scenario it (normalize_financial_data fd) None =
       recalculate_derived_values it sd"
    by (simp add: generate_pessimistic_scenario_def get_param_def sd_def Let_def
          normalize_dict [OF assms])
  have returned: "\<exists>r. fst (generate_scenario it self fd ''pessimista'' None) = Inr r"
    if "valid_iteration it" and "fully_populated fd"
  proof -
    from that(2) have "fully_populated sd"
      unfolding sd_def by (intro fully_populated_fold_scale)
    from recalculate_returns [OF that(1) this] obtain out where
      "recalculate_derived_values it sd = Inr out" by blast
    with generate_pessimistic_returned [of it fd None out self] pessimistic
    show ?thesis by auto
  qed
  have scaled:
    "map_of (data r) (category_value REVENUE) =
       map_option (scale_numeric 0.85) (map_of fd (category_value REVENUE)) \<and>
     map_of (data r) (category_value VARIABLE_COSTS) =
       map_option (scale_numeric 1.10) (map_of fd (category_value VARIABLE_COSTS)) \<and>
     map_of (data r) (category_value PERSONNEL_EXPENSES) =
       map_option (scale_numeric 1.10) (map_of fd (category_value PERSONNEL_EXPENSES)) \<and>
     map_of (data r) (category_value COMMERCIAL_EXPENSES) =
       map_option (scale_numeric 1.10) (map_of fd (category_value COMMERCIAL_EXPENSES)) \<and>
     map_of (data r) (category_value ADMIN_EXPENSES) =
       map_option (scale_numeric 1.10) (map_of fd (category_value ADMIN_EXPENSES)) \<and>
     map_of (data r) (category_value INVESTMENTS) = map_of fd (category_value INVESTMENTS)"
    if "fst (generate_scenario it self fd ''pessimista'' None) = Inr r" for r
  proof -
    from generate_scenario_data [OF that] pessimistic
    have out: "recalculate_derived_values it sd = Inr (data r)" by simp
    have base: "map_of (data r) key = map_of sd key"
      if "key \<notin> set (map category_value CALCULATED_CATEGORIES)" for key
      using recalculate_keeps_others [OF out that] .
    show ?thesis
      by (simp add: base CALCULATED_CATEGORIES_def sd_def map_of_scale_category
            REVENUE_CATEGORIES_def VARIABLE_COST_CATEGORIES_def FIXED_EXPENSE_CATEGORIES_def)
  qed
  from returned scaled show ?thesis by blast
qed

theorem pessimistic_defaults_witness:
  "valid_iteration insertion_order \<and> distinct (map fst sample_data) \<and>
   fully_populated sample_data \<and>
   fst (generate_scenario insertion_order init_generator sample_data ''pessimista'' None) =
     Inr sample_pessimistic \<and>
   map_option (\<lambda>df. column_total df ''Jan'') (map_of sample_data ''receitas'') = Some 300000 \<and>
   map_option (\<lambda>df. column_total df ''Jan'') (map_of (data sample_pessimistic) ''receitas'')
     = Some 255000 \<and>
   map_option (\<lambda>df. column_total df ''Jan'') (map_of sample_data ''custos_variaveis'')
     = Some 90000 \<and>
   map_option (\<lambda>df. column_total df ''Jan'')
     (map_of (data sample_pessimistic) ''custos_variaveis'') = Some 99000 \<and>
   map_of (data sample_pessimistic) ''investimentos'' = map_of sample_data ''investimentos''"
proof -
  have keys: "distinct (map fst sample_data)" using sample_data_populated by simp
  note scaled = pessimistic_defaults
                  [OF keys, of insertion_order init_generator, THEN conjunct2, rule_format,
                   OF sample_pessimistic_returned]
  have revenue_before:
    "map_option (\<lambda>df. column_total df ''Jan'') (map_of sample_data ''receitas'') = Some 300000"
    by code_simp
  have costs_before:
    "map_option (\<lambda>df. column_total df ''Jan'') (map_of sample_data ''custos_variaveis'')
       = Some 90000"
    by code_simp
  have revenue_after:
    "map_option (\<lambda>df. column_total df ''Jan'')
       (map_option (scale_numeric 0.85) (map_of sample_data ''receitas'')) = Some 255000"
    by code_simp
  have costs_after:
    "map_option (\<lambda>df. column_total df ''Jan'')
       (map_option (scale_numeric 1.10) (map_of sample_data ''custos_variaveis'')) = Some 99000"
    by code_simp
  from scaled revenue_before costs_before revenue_after costs_after sample_pessimistic_returned
    insertion_order_valid sample_data_populated
  show ?thesis by simp
qed

text \<open>
  Claim C8. A scenario type other than the four known ones makes \<open>generate_scenario\<close>
  raise a \<open>ValueError\<close> whose message ends with the offending value. No scenario is
  produced, and the scenarios stored and the types noted in the metadata are as before
  the call. (The call has replaced the data held by the generator at that point.)
\<close>

theorem unknown_scenario_type_rejected:
  assumes "stype \<noteq> ''realista''" and "stype \<noteq> ''pessimista''"
    and "stype \<noteq> ''otimista''" and "stype \<noteq> ''agressivo''"
  shows "fst (generate_scenario it self fd stype parameters) =
           Inl (ValueError (''Tipo de cen'' @ [CHR 0xE1] @ ''rio desconhecido: '' @ stype)) \<and>
         scenarios (snd (generate_scenario it self fd stype parameters)) = scenarios self \<and>
         scenarios_generated (snd (generate_scenario it self fd stype parameters)) =
           scenarios_generated self"
  using assms by (simp add: generate_scenario_def Let_def)

theorem unknown_scenario_type_rejected_witness:
  "fst (generate_scenario insertion_order init_generator sample_data ''neutro'' None) =
     Inl (ValueError (''Tipo de cen'' @ [CHR 0xE1] @ ''rio desconhecido: neutro'')) \<and>
   scenarios (snd (generate_scenario insertion_order init_generator sample_data ''neutro'' None))
     = [] \<and>
   scenarios_generated
     (snd (generate_scenario insertion_order init_generator sample_data ''neutro'' None)) = []"
  using unknown_scenario_type_rejected
          [of "''neutro''" insertion_order init_generator sample_data None]
  by (simp add: init_generator_def)

text \<open>
  Claim C9, as amended. In the metrics of every scenario returned, \<open>total_revenue\<close> is the
  grand sum of the numeric revenue cells of the scenario; \<open>margin_percentage\<close> is
  \<open>total_margin / total_revenue * 100\<close> when \<open>total_revenue\<close> is positive and 0 otherwise;
  \<open>roi\<close> is \<open>total_cashflow / total_investment * 100\<close> when the grand sum of the
  investments is positive and 0 otherwise. A total of zero or below is never divided by.
\<close>

theorem metrics_guarded_division:
  assumes "fst (generate_scenario it self fd stype parameters) = Inr r"
  shows "total_revenue (response_metrics r) = category_total (data r) REVENUE \<and>
         margin_percentage (response_metrics r) =
           (if total_revenue (response_metrics r) > 0
            then total_margin (response_metrics r) / total_revenue (response_metrics r) * 100
            else 0) \<and>
         roi (response_metrics r) =
           (if category_total (data r) INVESTMENTS > 0
            then total_cashflow (response_metrics r) / category_total (data r) INVESTMENTS * 100
            else 0)"
proof -
  have single: "group_total sd [c] = category_total sd c" for sd c
    by (simp add: group_total_def category_total_def split: option.splits)
  show ?thesis
    unfolding generate_scenario_metrics [OF assms]
    by (simp add: calculate_scenario_metrics_def Let_def REVENUE_CATEGORIES_def
          INVESTMENT_CATEGORIES_def single)
qed

theorem metrics_guarded_division_witness:
  "fst (generate_scenario insertion_order init_generator sample_data ''realista'' None) =
     Inr sample_realistic \<and>
   total_revenue (response_metrics sample_realistic) = 937000 \<and>
   margin_percentage (response_metrics sample_realistic) = 655000 / 937000 * 100 \<and>
   roi (response_metrics sample_realistic) = 332200 / 87000 * 100"
proof -
  have revenue: "category_total (data sample_realistic) REVENUE = 937000"
    unfolding sample_realistic_def by code_simp
  have investment: "category_total (data sample_realistic) INVESTMENTS = 87000"
    unfolding sample_realistic_def by code_simp
  have margin: "total_margin (response_metrics sample_realistic) = 655000"
    unfolding sample_realistic_def by code_simp
  have cashflow: "total_cashflow (response_metrics sample_realistic) = 332200"
    unfolding sample_realistic_def by code_simp
  from metrics_guarded_division [OF sample_realistic_returned] revenue investment margin cashflow
    sample_realistic_returned
  show ?thesis by simp
qed

text \<open>
  Claim C9 as stated fails: it gives the quotient whenever the total is not zero. With a
  revenue of \<open>-100\<close> and a margin of \<open>-120\<close> the code reports a margin percentage of 0,
  not of 120.
\<close>

theorem metrics_claim_counterexample:
  "total_revenue refund_metrics = - 100 \<and> total_margin refund_metrics = - 120 \<and>
   margin_percentage refund_metrics = 0 \<and>
   margin_percentage refund_metrics
     \<noteq> total_margin refund_metrics / total_revenue refund_metrics * 100"
  unfolding refund_metrics_def by code_simp

text \<open>
  Claim C1 does not hold of the code. \<open>_recalculate_derived_values\<close> pairs the list of
  the common columns with the arrays of sums by position, and the arrays are in the
  iteration order of other sets: those of the numeric labels of each group. When the
  investments have only \<open>Fev\<close>, the only common column is \<open>Fev\<close>; with sets that iterate
  \<open>Jan\<close> before \<open>Fev\<close> the margin stored under \<open>Fev\<close> is 60 and the cash flow 50, which
  are the values of \<open>Jan\<close>: the revenue of \<open>Fev\<close> is 200, its variable costs 50 and its
  fixed expenses 20, so the margin of \<open>Fev\<close> is 150 and its cash flow 130.
\<close>

theorem margin_misaligned:
  "scenario_returned insertion_order fev_investment_data ''realista'' \<and>
   map_of (scenario_data insertion_order fev_investment_data ''realista'') ''margem_contribuicao''
     = Some \<lparr>nrows = 1, columns = [(''Fev'', Num [Some 60])]\<rparr> \<and>
   map_of (scenario_data insertion_order fev_investment_data ''realista'') ''fluxo_de_caixa''
     = Some \<lparr>nrows = 1, columns = [(''Fev'', Num [Some 50])]\<rparr> \<and>
   map_option (\<lambda>df. column_total df ''Fev'')
     (map_of (scenario_data insertion_order fev_investment_data ''realista'') ''receitas'')
     = Some 200 \<and>
   map_option (\<lambda>df. column_total df ''Fev'')
     (map_of (scenario_data insertion_order fev_investment_data ''realista'') ''custos_variaveis'')
     = Some 50 \<and>
   map_option (\<lambda>df. column_total df ''Fev'')
     (map_of (scenario_data insertion_order fev_investment_data ''realista'') ''despesas_pessoal'')
     = Some 20"
  unfolding scenario_returned_def scenario_data_def by code_simp

text \<open>
  The misalignment does not depend on the iteration order chosen above: whatever the
  order of the sets, the margin is stored under the wrong label for the dataset whose
  investments have only \<open>Fev\<close> or for the one whose investments have only \<open>Jan\<close>.
\<close>

lemma two_labels:
  assumes "distinct xs" and "set xs = {a, b}" and "a \<noteq> b"
  shows "xs = [a, b] \<or> xs = [b, a]"
proof -
  from assms have "length xs = 2" using distinct_card [of xs] by simp
  then obtain x y where xs: "xs = [x, y]"
    by (cases xs; cases "tl xs") auto
  with assms show ?thesis by auto
qed

lemma one_label:
  assumes "distinct xs" and "set xs = {a}"
  shows "xs = [a]"
proof -
  from assms have "length xs = 1" using distinct_card [of xs] by simp
  then obtain x where "xs = [x]" by (cases xs) auto
  with assms show ?thesis by auto
qed

lemmas generator_defs =
  scenario_data_def two_month_data_def generate_scenario_def
  normalize_financial_data_def generate_realistic_scenario_def recalculate_derived_values_def
  sum_category_values_def group_numeric_columns_def numeric_cols_def
  REVENUE_CATEGORIES_def VARIABLE_COST_CATEGORIES_def FIXED_EXPENSE_CATEGORIES_def
  find_common_numeric_columns_def df_empty_def create_or_get_dataframe_def
  update_dataframe_with_values_def np_binop_def np_cumsum_def set_col_def nansum_def
  column_total_def init_generator_def Let_def

lemma every_order_misaligns_margin:
  assumes "valid_iteration it"
  shows "map_option (\<lambda>df. column_total df ''Fev'')
           (map_of (scenario_data it fev_investment_data ''realista'') ''margem_contribuicao'')
           = Some 60 \<or>
         map_option (\<lambda>df. column_total df ''Jan'')
           (map_of (scenario_data it jan_investment_data ''realista'') ''margem_contribuicao'')
           = Some 150"
proof -
  have order: "listing it [''Jan'', ''Fev''] = [''Jan'', ''Fev''] \<or>
               listing it [''Jan'', ''Fev''] = [''Fev'', ''Jan'']"
    using assms by (intro two_labels) (auto simp: valid_iteration_def)
  have fev: "intersection_listing it
               [[''Jan'', ''Fev''], [''Jan'', ''Fev''], [''Jan'', ''Fev''], [''Fev'']] = [''Fev'']"
    using assms by (intro one_label) (auto simp: valid_iteration_def)
  have jan: "intersection_listing it
               [[''Jan'', ''Fev''], [''Jan'', ''Fev''], [''Jan'', ''Fev''], [''Jan'']] = [''Jan'']"
    using assms by (intro one_label) (auto simp: valid_iteration_def)
  from order show ?thesis
  proof
    assume "listing it [''Jan'', ''Fev''] = [''Jan'', ''Fev'']"
    with fev have "map_option (\<lambda>df. column_total df ''Fev'')
        (map_of (scenario_data it fev_investment_data ''realista'') ''margem_contribuicao'')
        = Some 60"
      by (simp add: generator_defs fev_investment_data_def)
    then show ?thesis by simp
  next
    assume "listing it [''Jan'', ''Fev''] = [''Fev'', ''Jan'']"
    with jan have "map_option (\<lambda>df. column_total df ''Jan'')
        (map_of (scenario_data it jan_investment_data ''realista'') ''margem_contribuicao'')
        = Some 150"
      by (simp add: generator_defs jan_investment_data_def)
    then show ?thesis by simp
  qed
qed

text \<open>
  Claim C2 does not hold of the code. The common columns go through a set, so the derived
  series follow the iteration order of the set and not the order of the columns of the
  input. The frames have \<open>Jan\<close> before \<open>Fev\<close>; with sets that iterate \<open>Fev\<close> before
  \<open>Jan\<close> the cash flow is 130 for \<open>Fev\<close> and 50 for \<open>Jan\<close>, and the final balance is 130
  for \<open>Fev\<close> and 180 for \<open>Jan\<close>: the balance of the first month is the sum of both
  months, and that of the second month leaves the first month out.
\<close>

theorem balance_not_in_column_order:
  "scenario_returned reversed_order two_month_data ''realista'' \<and>
   map_option numeric_cols (map_of two_month_data ''receitas'') = Some [''Jan'', ''Fev''] \<and>
   map_of (scenario_data reversed_order two_month_data ''realista'') ''fluxo_de_caixa''
     = Some \<lparr>nrows = 1, columns = [(''Fev'', Num [Some 130]), (''Jan'', Num [Some 50])]\<rparr> \<and>
   map_of (scenario_data reversed_order two_month_data ''realista'') ''saldo_final''
     = Some \<lparr>nrows = 1, columns = [(''Fev'', Num [Some 130]), (''Jan'', Num [Some 180])]\<rparr>"
  unfolding scenario_returned_def scenario_data_def by code_simp

text \<open>
  The array of balances itself is the running sum of the array of cash flows, entry by
  entry; it is the pairing of the entries with the labels that goes by another order.
\<close>

lemma cumsum_from_nth:
  "i < length xs \<Longrightarrow> cumsum_from acc xs ! i = acc + sum_list (take (Suc i) xs)"
proof (induction xs arbitrary: acc i)
  case Nil
  then show ?case by simp
next
  case (Cons x xs)
  show ?case
  proof (cases i)
    case 0
    then show ?thesis by simp
  next
    case (Suc j)
    with Cons.prems have "j < length xs" by simp
    from Cons.IH [OF this, of "acc + x"] Suc show ?thesis by simp
  qed
qed

lemma np_cumsum_nth:
  "i < length cashflow \<Longrightarrow> np_cumsum cashflow ! i = sum_list (take (Suc i) cashflow)"
  by (simp add: np_cumsum_def cumsum_from_nth)

text \<open>
  On this dataset the cash flow and the final balance of \<open>Jan\<close> are both 50. The code
  gives another value for one of them under every iteration order in which the set of
  the two labels or the set of the common columns does not iterate in the order of the
  columns.
\<close>

lemma derived_series_need_insertion_order:
  assumes "valid_iteration it"
  shows "listing it [''Jan'', ''Fev''] = [''Jan'', ''Fev''] \<and>
         intersection_listing it [[''Jan'', ''Fev''], [''Jan'', ''Fev''], [''Jan'', ''Fev'']]
           = [''Jan'', ''Fev''] \<or>
         map_option (\<lambda>df. column_total df ''Jan'')
           (map_of (scenario_data it two_month_data ''realista'') ''fluxo_de_caixa'') \<noteq> Some 50 \<or>
         map_option (\<lambda>df. column_total df ''Jan'')
           (map_of (scenario_data it two_month_data ''realista'') ''saldo_final'') \<noteq> Some 50"
proof -
  have order: "listing it [''Jan'', ''Fev''] = [''Jan'', ''Fev''] \<or>
               listing it [''Jan'', ''Fev''] = [''Fev'', ''Jan'']"
    using assms by (intro two_labels) (auto simp: valid_iteration_def)
  have common: "intersection_listing it [[''Jan'', ''Fev''], [''Jan'', ''Fev''], [''Jan'', ''Fev'']]
                  = [''Jan'', ''Fev''] \<or>
                intersection_listing it [[''Jan'', ''Fev''], [''Jan'', ''Fev''], [''Jan'', ''Fev'']]
                  = [''Fev'', ''Jan'']"
    using assms by (intro two_labels) (auto simp: valid_iteration_def)
  from order common show ?thesis
    by (elim disjE) (simp_all add: generator_defs)
qed

text \<open>
  Claim C3 does not hold of the code. The growth ratios are in the iteration order of the
  set of the revenue labels, and the cost and expense loops index them by the position of
  the column in the frame. With sets that iterate \<open>Fev\<close> before \<open>Jan\<close>, the revenue of
  \<open>Jan\<close> grows from 100 to 130 and that of \<open>Fev\<close> from 200 to 270, but the costs and
  expenses of \<open>Jan\<close> follow the ratio \<open>270 / 200\<close> of \<open>Fev\<close> and those of \<open>Fev\<close> the ratio
  \<open>130 / 100\<close> of \<open>Jan\<close>.
\<close>

theorem cost_growth_misaligned:
  "scenario_returned reversed_order two_month_data ''agressivo'' \<and>
   map_of (scenario_data reversed_order two_month_data ''agressivo'') ''receitas''
     = Some \<lparr>nrows = 1, columns = [(''Jan'', Num [Some 130]), (''Fev'', Num [Some 270])]\<rparr> \<and>
   map_of (scenario_data reversed_order two_month_data ''agressivo'') ''custos_variaveis''
     = Some \<lparr>nrows = 1,
             columns = [(''Jan'', Num [Some (40 * (1 + (270 / 200 - 1) * 0.8))]),
                        (''Fev'', Num [Some (50 * (1 + (130 / 100 - 1) * 0.8))])]\<rparr> \<and>
   map_of (scenario_data reversed_order two_month_data ''agressivo'') ''despesas_pessoal''
     = Some \<lparr>nrows = 1,
             columns = [(''Jan'', Num [Some (10 * (1 + (270 / 200 - 1) * 0.5))]),
                        (''Fev'', Num [Some (20 * (1 + (130 / 100 - 1) * 0.5))])]\<rparr>"
  unfolding scenario_returned_def scenario_data_def by code_simp

text \<open>
  Under every iteration order in which the set of the revenue labels does not iterate in
  the order of the columns, the variable costs of \<open>Jan\<close> follow the growth of \<open>Fev\<close>.
\<close>

lemma cost_growth_needs_insertion_order:
  assumes "valid_iteration it"
  shows "listing it [''Jan'', ''Fev''] = [''Jan'', ''Fev''] \<or>
         map_option (\<lambda>df. column_total df ''Jan'')
           (map_of (scenario_data it two_month_data ''agressivo'') ''custos_variaveis'')
           = Some (40 * (1 + (270 / 200 - 1) * 0.8))"
proof -
  have order: "listing it [''Jan'', ''Fev''] = [''Jan'', ''Fev''] \<or>
               listing it [''Jan'', ''Fev''] = [''Fev'', ''Jan'']"
    using assms by (intro two_labels) (auto simp: valid_iteration_def)
  have common: "intersection_listing it [[''Jan'', ''Fev''], [''Jan'', ''Fev''], [''Jan'', ''Fev'']]
                  = [''Jan'', ''Fev''] \<or>
                intersection_listing it [[''Jan'', ''Fev''], [''Jan'', ''Fev''], [''Jan'', ''Fev'']]
                  = [''Fev'', ''Jan'']"
    using assms by (intro two_labels) (auto simp: valid_iteration_def)
  from order common show ?thesis
    by (elim disjE)
       (simp_all add: generator_defs generate_aggressive_scenario_def get_param_def
          INVESTMENT_CATEGORIES_def grow_category_def scale_col_def scale_category_def
          follow_growth_def growth_ratio_def)
qed

section \<open>Properties of the classifier\<close>

lemma starts_with_prefix: "starts_with keyword t \<longleftrightarrow> (\<exists>after. t = keyword @ after)"
  by (induction keyword t rule: starts_with.induct) auto

lemma contains_occurs: "contains keyword t \<longleftrightarrow> occurs_in keyword t"
proof (induction t)
  case Nil
  then show ?case by (auto simp: occurs_in_def)
next
  case (Cons c cs)
  show ?case
  proof
    assume "contains keyword (c # cs)"
    then consider "starts_with keyword (c # cs)" | "contains keyword cs" by auto
    then show "occurs_in keyword (c # cs)"
    proof cases
      case 1
      then obtain after where "c # cs = keyword @ after" by (auto simp: starts_with_prefix)
      then have "c # cs = [] @ keyword @ after" by simp
      then show ?thesis unfolding occurs_in_def by blast
    next
      case 2
      with Cons obtain before after where "cs = before @ keyword @ after"
        by (auto simp: occurs_in_def)
      then have "c # cs = (c # before) @ keyword @ after" by simp
      then show ?thesis unfolding occurs_in_def by blast
    qed
  next
    assume "occurs_in keyword (c # cs)"
    then obtain before after where split: "c # cs = before @ keyword @ after"
      by (auto simp: occurs_in_def)
    show "contains keyword (c # cs)"
    proof (cases before)
      case Nil
      with split have "starts_with keyword (c # cs)" by (auto simp: starts_with_prefix)
      then show ?thesis by simp
    next
      case (Cons b bs)
      with split have "cs = bs @ keyword @ after" by simp
      then have "occurs_in keyword cs" unfolding occurs_in_def by blast
      with Cons.IH show ?thesis by simp
    qed
  qed
qed

lemma match_category_find:
  "match_category table text =
     map_option fst (find (\<lambda>entry. keyword_match (snd entry) text) table)"
  by (induction table) (auto simp: keyword_match_def list_ex_iff contains_occurs)

lemma lower_char_idem: "lower_char (lower_char c) = lower_char c"
proof -
  define n where "n = (of_char c :: nat)"
  have step: "lower_char c =
    (if (65 \<le> n \<and> n \<le> 90) \<or> (192 \<le> n \<and> n \<le> 222 \<and> n \<noteq> 215) then char_of (n + 32) else c)"
    by (simp add: lower_char_def Let_def n_def)
  show ?thesis
  proof (cases "(65 \<le> n \<and> n \<le> 90) \<or> (192 \<le> n \<and> n \<le> 222 \<and> n \<noteq> 215)")
    case True
    then have code: "(of_char (char_of (n + 32)) :: nat) = n + 32" by auto
    from True have "lower_char (char_of (n + 32)) = char_of (n + 32)"
      unfolding lower_char_def Let_def code by auto
    with True step show ?thesis by simp
  next
    case False
    with step show ?thesis by simp
  qed
qed

lemma lower_idem: "lower (lower s) = lower s"
  by (simp add: lower_def lower_char_idem)

lemma lower_append: "lower (a @ b) = lower a @ lower b"
  by (simp add: lower_def)

lemma text_content_fold:
  "lower acc = acc \<Longrightarrow>
   fold (\<lambda>c content. case snd c of Txt xs \<Rightarrow> lower (content @ join '' '' (map cell_str xs))
                                   | _ \<Rightarrow> content) cols acc =
   acc @ lower (concat (map (\<lambda>c. case snd c of Txt xs \<Rightarrow> join '' '' (map cell_str xs) | _ \<Rightarrow> [])
                            cols))"
proof (induction cols arbitrary: acc)
  case Nil
  then show ?case by (simp add: lower_def)
next
  case (Cons col cols)
  show ?case
  proof (cases "snd col")
    case (Txt xs)
    have "lower (lower (acc @ join '' '' (map cell_str xs))) = lower (acc @ join '' '' (map cell_str xs))"
      by (rule lower_idem)
    from Cons.IH [OF this] Txt Cons.prems show ?thesis
      by (simp add: lower_append)
  qed (use Cons in \<open>simp_all add: lower_append\<close>)
qed

lemma text_content_sheet_text: "text_content df = sheet_text df"
  using text_content_fold [of "[]" "columns df"]
  by (simp add: text_content_def sheet_text_def lower_def)

lemma extract_append:
  "extract_financial_data to_dt fd (xs @ ys) =
     extract_financial_data to_dt (extract_financial_data to_dt fd xs) ys"
  by (induction xs arbitrary: fd) (auto split: option.splits)

lemma match_category_first: "match_category CATEGORY_KEYWORDS t = first_category t"
  by (simp add: first_category_def match_category_find)

text \<open>
  Claim C6. The category of a sheet is found in three passes, the first that finds one
  deciding: the first category of the table one of whose keywords occurs in the
  lower-cased sheet name; else the first one with a keyword in the lower-cased text of the
  text columns; else the first one with a keyword in the lower-cased column headers, joined
  by blanks. A sheet for which no pass finds a category leaves no trace in the extracted
  data: the extraction gives what it gives for the workbook without that sheet.
\<close>

theorem classification_passes:
  "identify_sheet_category sheet_name df =
     (case first_category (lower sheet_name) of
        Some c \<Rightarrow> Some c
      | None \<Rightarrow>
          (case first_category (sheet_text df) of
             Some c \<Rightarrow> Some c
           | None \<Rightarrow> first_category (lower (join '' '' (map fst (columns df)))))) \<and>
   (identify_sheet_category sheet_name df = None \<longrightarrow>
      extract_financial_data to_dt fd (before @ (sheet_name, df) # after) =
        extract_financial_data to_dt fd (before @ after))"
proof
  show "identify_sheet_category sheet_name df =
     (case first_category (lower sheet_name) of
        Some c \<Rightarrow> Some c
      | None \<Rightarrow>
          (case first_category (sheet_text df) of
             Some c \<Rightarrow> Some c
           | None \<Rightarrow> first_category (lower (join '' '' (map fst (columns df))))))"
    unfolding identify_sheet_category_def match_category_first text_content_sheet_text
      columns_text_def ..
  show "identify_sheet_category sheet_name df = None \<longrightarrow>
      extract_financial_data to_dt fd (before @ (sheet_name, df) # after) =
        extract_financial_data to_dt fd (before @ after)"
    by (simp add: extract_append)
qed

theorem classification_passes_witness:
  "identify_sheet_category (fst notes_sheet) (snd notes_sheet) = None \<and>
   identify_sheet_category (fst sales_text_sheet) (snd sales_text_sheet) = Some REVENUE \<and>
   extract_financial_data no_dates [] [revenue_sheet_q1, notes_sheet, revenue_sheet_q2] =
     extract_financial_data no_dates [] [revenue_sheet_q1, revenue_sheet_q2]"
proof -
  have dropped: "identify_sheet_category (fst notes_sheet) (snd notes_sheet) = None"
    by code_simp
  have found: "identify_sheet_category (fst sales_text_sheet) (snd sales_text_sheet)
                 = Some REVENUE"
    by code_simp
  from classification_passes
         [where sheet_name = "fst notes_sheet" and df = "snd notes_sheet" and to_dt = no_dates
            and fd = "[]" and before = "[revenue_sheet_q1]" and after = "[revenue_sheet_q2]"]
       dropped found
  show ?thesis by simp
qed

lemma category_value_inj: "category_value c = category_value c' \<longleftrightarrow> c = c'"
  by (cases c; cases c'; simp)

lemma distinct_dict_set:
  "distinct (map fst ps) \<Longrightarrow> distinct (map fst (dict_set ps k v))"
  by (induction ps) (auto simp: keys_dict_set)

lemma extract_distinct:
  "distinct (map fst fd) \<Longrightarrow> distinct (map fst (extract_financial_data to_dt fd sheets))"
  by (induction sheets arbitrary: fd) (auto simp: distinct_dict_set split: option.splits)

lemma extract_other_category:
  assumes "\<not> classified_as c sheet"
  shows "map_of (extract_financial_data to_dt fd [sheet]) (category_value c) =
           map_of fd (category_value c)"
  using assms
  by (auto simp: classified_as_def map_of_dict_set category_value_inj split: option.splits)

lemma extract_this_category:
  assumes "classified_as c sheet"
  shows "map_of (extract_financial_data to_dt fd [sheet]) (category_value c) =
           Some (process_dataframe_by_category to_dt (snd sheet) c)"
  using assms by (auto simp: classified_as_def map_of_dict_set)

lemma extract_last_wins:
  "map_of (extract_financial_data to_dt fd sheets) (category_value c) =
     (if filter (classified_as c) sheets = [] then map_of fd (category_value c)
      else Some (process_dataframe_by_category to_dt
                   (snd (last (filter (classified_as c) sheets))) c))"
proof (induction sheets rule: rev_induct)
  case Nil
  then show ?case by simp
next
  case (snoc sheet sheets)
  have step: "extract_financial_data to_dt fd (sheets @ [sheet]) =
                extract_financial_data to_dt (extract_financial_data to_dt fd sheets) [sheet]"
    by (rule extract_append)
  show ?case
  proof (cases "classified_as c sheet")
    case True
    from extract_this_category [OF True] True show ?thesis
      unfolding step by simp
  next
    case False
    from extract_other_category [OF False] False snoc show ?thesis
      unfolding step by simp
  qed
qed

lemma single_entry:
  assumes "distinct (map fst ps)" and "map_of ps k = Some v"
  shows "filter (\<lambda>entry. fst entry = k) ps = [(k, v)]"
  using assms
proof (induction ps)
  case Nil
  then show ?case by simp
next
  case (Cons p ps)
  show ?case
  proof (cases "fst p = k")
    case True
    with Cons.prems have "p = (k, v)" by (cases p) auto
    moreover have "fst entry \<noteq> k" if "entry \<in> set ps" for entry
      using Cons.prems(1) True that by (metis distinct.simps(2) image_eqI list.simps(9) set_map)
    then have "filter (\<lambda>entry. fst entry = k) ps = []"
      by (simp add: filter_empty_conv)
    ultimately show ?thesis by simp
  next
    case False
    with Cons show ?thesis by auto
  qed
qed

text \<open>
  Claim C10. When sheets of the workbook classify to a category, the data extracted by a
  new processor hold exactly one table under the key of that category, and it is the
  processed table of the last of these sheets in the order of the workbook; the tables of
  the earlier ones are not in the result.
\<close>

theorem last_sheet_of_a_category_wins:
  assumes "filter (classified_as c) excel_data \<noteq> []"
  shows "filter (\<lambda>entry. fst entry = category_value c)
           (extract_financial_data to_dt [] excel_data) =
         [(category_value c,
           process_dataframe_by_category to_dt
             (snd (last (filter (classified_as c) excel_data))) c)]"
proof -
  have "map_of (extract_financial_data to_dt [] excel_data) (category_value c) =
          Some (process_dataframe_by_category to_dt
                  (snd (last (filter (classified_as c) excel_data))) c)"
    using assms by (simp add: extract_last_wins)
  moreover have "distinct (map fst (extract_financial_data to_dt [] excel_data))"
    by (simp add: extract_distinct)
  ultimately show ?thesis by (rule single_entry [rotated])
qed

theorem last_sheet_of_a_category_wins_witness:
  "filter (classified_as REVENUE) [revenue_sheet_q1, notes_sheet, revenue_sheet_q2] =
     [revenue_sheet_q1, revenue_sheet_q2] \<and>
   filter (\<lambda>entry. fst entry = ''receitas'')
     (extract_financial_data no_dates [] [revenue_sheet_q1, notes_sheet, revenue_sheet_q2]) =
   [(''receitas'',
     \<lparr>nrows = 2,
      columns = [(''Produto'', Txt [Some ''A'', Some ''B'']), (''Abr'', Num [Some 250, None])]\<rparr>)]"
proof -
  have sheets: "filter (classified_as REVENUE) [revenue_sheet_q1, notes_sheet, revenue_sheet_q2]
                  = [revenue_sheet_q1, revenue_sheet_q2]"
    by code_simp
  have processed: "process_dataframe_by_category no_dates (snd revenue_sheet_q2) REVENUE =
      \<lparr>nrows = 2,
       columns = [(''Produto'', Txt [Some ''A'', Some ''B'']), (''Abr'', Num [Some 250, None])]\<rparr>"
    by code_simp
  from last_sheet_of_a_category_wins
         [where c = REVENUE and to_dt = no_dates
            and excel_data = "[revenue_sheet_q1, notes_sheet, revenue_sheet_q2]"]
       sheets processed
  show ?thesis by simp
qed

lemma validate_excel_structure_cases:
  "validate_excel_structure excel_data =
     (if no_tabular_data excel_data
      then (if excel_data = []
            then Inl (ExcelValidationError
                   (''O arquivo Excel n'' @ [CHR 0xE3] @ ''o cont'' @ [CHR 0xE9] @ ''m planilhas.''))
            else Inl (ExcelValidationError
             (''O arquivo Excel n'' @ [CHR 0xE3] @ ''o cont'' @ [CHR 0xE9] @ ''m dados v''
              @ [CHR 0xE1] @ ''lidos em nenhuma planilha.'')))
      else Inr ())"
  by (auto simp: validate_excel_structure_def no_tabular_data_def df_empty_def
        list_all_iff list_ex_iff)

lemma dict_set_not_empty: "dict_set ps k v \<noteq> []"
  by (cases ps) auto

lemma extract_empty:
  "extract_financial_data to_dt fd sheets = [] \<longleftrightarrow> fd = [] \<and> no_category_recognized sheets"
  by (induction sheets arbitrary: fd)
     (auto simp: no_category_recognized_def dict_set_not_empty split: option.splits)

lemma check_numeric_columns_cases:
  "(\<exists>message. check_numeric_columns fd = Inl (ExcelValidationError message)) \<and>
     category_without_numbers fd \<or>
   check_numeric_columns fd = Inr () \<and> \<not> category_without_numbers fd"
  by (induction fd) (auto simp: category_without_numbers_def)

lemma no_data_no_category: "no_tabular_data sheets \<Longrightarrow> no_category_recognized sheets"
  by (auto simp: no_tabular_data_def no_category_recognized_def list_all_iff)

text \<open>
  Claim C7. On a new processor the extraction raises \<open>ExcelValidationError\<close>, and no
  other error, exactly when no sheet holds tabular data, or no sheet that holds data is
  classified, or some table of the extracted data has no numeric column; in every other
  case it returns the extracted data.
\<close>

theorem extraction_fails_exactly_when:
  "(case fst (process_excel_data to_dt [] excel_data) of
      Inl e \<Rightarrow>
        (\<exists>message. e = ExcelValidationError message) \<and>
        (no_tabular_data excel_data \<or> no_category_recognized excel_data \<or>
         category_without_numbers (extract_financial_data to_dt [] excel_data))
    | Inr out \<Rightarrow>
        out = extract_financial_data to_dt [] excel_data \<and>
        \<not> no_tabular_data excel_data \<and> \<not> no_category_recognized excel_data \<and>
        \<not> category_without_numbers (extract_financial_data to_dt [] excel_data))"
proof (cases "no_tabular_data excel_data")
  case True
  then show ?thesis
    by (auto simp: process_excel_data_def validate_excel_structure_cases)
next
  case data: False
  show ?thesis
  proof (cases "no_category_recognized excel_data")
    case True
    then have "extract_financial_data to_dt [] excel_data = []" by (simp add: extract_empty)
    with data True show ?thesis
      by (simp add: process_excel_data_def validate_excel_structure_cases
            validate_financial_data_def)
  next
    case False
    then have "extract_financial_data to_dt [] excel_data \<noteq> []" by (simp add: extract_empty)
    with data False check_numeric_columns_cases [of "extract_financial_data to_dt [] excel_data"]
    show ?thesis
      by (auto simp: process_excel_data_def validate_excel_structure_cases
            validate_financial_data_def Let_def)
  qed
qed

theorem extraction_fails_exactly_when_witness:
  "fst (process_excel_data no_dates [] [revenue_sheet_q1, notes_sheet]) =
     Inr (extract_financial_data no_dates [] [revenue_sheet_q1, notes_sheet]) \<and>
   \<not> no_tabular_data [revenue_sheet_q1, notes_sheet] \<and>
   \<not> no_category_recognized [revenue_sheet_q1, notes_sheet] \<and>
   \<not> category_without_numbers
       (extract_financial_data no_dates [] [revenue_sheet_q1, notes_sheet]) \<and>
   isl (fst (process_excel_data no_dates [] [revenue_sheet_q1, sales_text_sheet])) \<and>
   category_without_numbers
     (extract_financial_data no_dates [] [revenue_sheet_q1, sales_text_sheet])"
proof -
  have returned: "\<not> isl (fst (process_excel_data no_dates [] [revenue_sheet_q1, notes_sheet]))"
    by code_simp
  have raised: "isl (fst (process_excel_data no_dates [] [revenue_sheet_q1, sales_text_sheet]))"
    by code_simp
  have sheets: "\<not> no_tabular_data [revenue_sheet_q1, sales_text_sheet]"
    "\<not> no_category_recognized [revenue_sheet_q1, sales_text_sheet]"
    by code_simp+
  from extraction_fails_exactly_when
         [where to_dt = no_dates and excel_data = "[revenue_sheet_q1, notes_sheet]"] returned
  have first: "fst (process_excel_data no_dates [] [revenue_sheet_q1, notes_sheet]) =
     Inr (extract_financial_data no_dates [] [revenue_sheet_q1, notes_sheet]) \<and>
   \<not> no_tabular_data [revenue_sheet_q1, notes_sheet] \<and>
   \<not> no_category_recognized [revenue_sheet_q1, notes_sheet] \<and>
   \<not> category_without_numbers
       (extract_financial_data no_dates [] [revenue_sheet_q1, notes_sheet])"
    by (auto split: sum.splits)
  from extraction_fails_exactly_when
         [where to_dt = no_dates and excel_data = "[revenue_sheet_q1, sales_text_sheet]"]
       raised sheets
  have "category_without_numbers
          (extract_financial_data no_dates [] [revenue_sheet_q1, sales_text_sheet])"
    by (auto split: sum.splits)
  with first raised show ?thesis by simp
qed

end
